theory Spec2Isabelle
  imports
    Main
    "HOL-Library.AList"
    "HOL-Library.Sublist"
    "HOL-Library.List_Lexorder"
    "HOL-Library.Char_ord"
    "HOL-Library.Multiset"
begin

section \<open>The local experiment client (\<^verbatim>\<open>local_client.py\<close>)\<close>

text \<open>
  \<^verbatim>\<open>LocalExperimentClient\<close> keeps two pandas tables (\<^verbatim>\<open>_experiments\<close>,
  \<^verbatim>\<open>_results\<close>) and a dictionary of figures, and optionally mirrors them in a
  storage directory. The embedding below follows the class method by method.

  Conventions of the embedding:
  \<^item> A table is the list of its rows in index order. The index labels themselves are never
    observed by the code except through \<^verbatim>\<open>exp.index[0]\<close>, which names the first row
    that matches an identifier.
  \<^item> A row carries the columns the methods read, with the types the data model gives
    them. The two timestamps the list methods sort by may be missing (\<^verbatim>\<open>NaN\<close> in
    the table): a payload need not carry them, and nothing in the client sets them. The
    other columns of the tables (\<^verbatim>\<open>extra\<close>, \<^verbatim>\<open>notes\<close>, \<^verbatim>\<open>fit\<close>, ...) are
    read by no method and are left out, so a payload consists of the modelled columns.
  \<^item> Python dictionaries are association lists in insertion order
    (\<open>AList.update\<close> overwrites in place or appends, as \<^verbatim>\<open>d[k] = v\<close> does).
  \<^item> Strings are compared as Python compares them: lexicographically by character code.
  \<^item> \<^verbatim>\<open>Series.str.contains\<close> is pandas' code, not the client's: it compiles its
    argument as a regular expression and may raise. The list methods take it as a
    parameter, and what is proved of them holds whatever it returns.
  \<^item> A plot is a sequence of bytes, and writing a file of the storage directory succeeds.
  \<^item> \<^verbatim>\<open>to_json\<close> followed by \<^verbatim>\<open>read_json\<close> is taken to give the table back as
    it was; the conversions \<^verbatim>\<open>read_json\<close> applies to values that look like numbers or
    dates are not modelled.
  \<^item> Every method returns its outcome (\<open>Inl\<close> an exception, \<open>Inr\<close> the returned value)
    together with the client as the call leaves it.
\<close>

subsection \<open>Data\<close>

type_synonym timestamp = int
type_synonym bytes = string

record row =
  uuid :: string
  type :: string
  device_name :: string
  tags :: "string list"

record experiment_row = row +
  parent_experiment_uuid :: "string option"
  start_time :: "timestamp option"

record result_row = row +
  experiment_uuid :: string
  quality :: string
  verified :: bool
  created_at :: "timestamp option"

text \<open>The exceptions the methods raise, by their Python names; \<open>RequestsApiError\<close>
  carries the status code when one is passed, and \<open>ReError\<close> is \<^verbatim>\<open>re.error\<close>, raised
  for a pattern that does not compile.\<close>

datatype error =
    IBMExperimentEntryNotFound
  | IBMExperimentEntryExists
  | RequestsApiError "nat option"
  | ValueError
  | KeyError
  | IndexError
  | AttributeError
  | ReError

text \<open>The storage directory: the two table files (absent until first written) and the
  figures directory with its files by name (absent until \<open>create_directories\<close>).\<close>

record disk =
  experiments_file :: "experiment_row list option"
  results_file :: "result_row list option"
  figures_dir :: "(string \<times> bytes) list option"

record client =
  local_save :: bool
  db_experiments :: "experiment_row list"
  db_results :: "result_row list"
  db_figures :: "(string \<times> (string \<times> bytes) list) list"
  storage :: disk

subsection \<open>Python and pandas helpers\<close>

text \<open>\<^verbatim>\<open>s.split(sep)\<close> for a one-character separator: never empty, one more field
  than separators.\<close>

fun split_on :: "char \<Rightarrow> string \<Rightarrow> string list" where
  "split_on sep [] = [[]]"
| "split_on sep (c # cs) =
     (if c = sep then [] # split_on sep cs
      else (case split_on sep cs of
              [] \<Rightarrow> [[c]]
            | w # ws \<Rightarrow> (c # w) # ws))"

text \<open>\<^verbatim>\<open>s.startswith(p)\<close>.\<close>

definition startswith :: "string \<Rightarrow> string \<Rightarrow> bool" where
  "startswith s p = prefix p s"

text \<open>\<^verbatim>\<open>column.str.contains(pat)\<close>: from the values of a column and a pattern to a
  mask with one truth value per row, or an exception. \<^verbatim>\<open>df.loc[mask]\<close> keeps the rows
  whose truth value is \<^verbatim>\<open>True\<close>.\<close>

type_synonym str_contains = "string list \<Rightarrow> string \<Rightarrow> error + bool list"

definition loc_mask :: "bool list \<Rightarrow> 'r list \<Rightarrow> 'r list" where
  "loc_mask keep df = map snd (filter fst (zip keep df))"

text \<open>What \<^verbatim>\<open>str.contains\<close> returns for a pattern without regular expression
  metacharacters: such a pattern matches itself and nothing else, so the search is a
  substring test. It serves to run the list methods on concrete inputs with such
  patterns.\<close>

definition contains_literal :: str_contains where
  "contains_literal column pat = Inr (map (sublist pat) column)"

text \<open>\<^verbatim>\<open>df.iloc[:limit]\<close>: Python slicing. \<^verbatim>\<open>None\<close> keeps everything, a negative
  bound counts from the end.\<close>

definition iloc_upto :: "int option \<Rightarrow> 'a list \<Rightarrow> 'a list" where
  "iloc_upto limit df =
     (case limit of
        None \<Rightarrow> df
      | Some n \<Rightarrow> if 0 \<le> n then take (nat n) df
                  else take (length df - nat (- n)) df)"

text \<open>A keyword argument with a default: the caller leaves it out or passes a value.\<close>

datatype 'a arg = Omitted | Given 'a

fun arg_or :: "'a \<Rightarrow> 'a arg \<Rightarrow> 'a" where
  "arg_or d Omitted = d"
| "arg_or d (Given v) = v"

definition bind_err :: "error + 'a \<Rightarrow> ('a \<Rightarrow> error + 'b) \<Rightarrow> error + 'b" where
  "bind_err m f = (case m of Inl e \<Rightarrow> Inl e | Inr x \<Rightarrow> f x)"

subsection \<open>Filtering, sorting and truncation\<close>

text \<open>The type filter of both list methods:
  \<^verbatim>\<open>if t[:5] == "like:": t = t.split(":")[1]; df = df.loc[df.type.str.contains(t)]\<close>
  \<^verbatim>\<open>else: df = df.loc[df.type == t]\<close>.\<close>

definition type_filter ::
  "str_contains \<Rightarrow> string option \<Rightarrow> 'a row_scheme list \<Rightarrow> error + 'a row_scheme list" where
  "type_filter contains ft df =
     (case ft of
        None \<Rightarrow> Inr df
      | Some t \<Rightarrow>
          if take 5 t = ''like:'' then
            (case split_on CHR '':'' t of
               _ # pat # _ \<Rightarrow>
                 (case contains (map type df) pat of
                    Inl e \<Rightarrow> Inl e
                  | Inr keep \<Rightarrow> Inr (loc_mask keep df))
             | _ \<Rightarrow> Inl IndexError)
          else Inr (filter (\<lambda>r. type r = t) df))"

text \<open>The tag filter of \<^verbatim>\<open>experiments\<close>: \<^verbatim>\<open>tags\<close> is a list and the operator a
  separate argument.\<close>

definition tags_filter ::
  "string list option \<Rightarrow> string option \<Rightarrow> 'a row_scheme list \<Rightarrow> error + 'a row_scheme list" where
  "tags_filter tgs operator df =
     (case tgs of
        None \<Rightarrow> Inr df
      | Some ts \<Rightarrow>
          if operator = Some ''OR'' then
            Inr (filter (\<lambda>r. list_ex (\<lambda>x. x \<in> set (tags r)) ts) df)
          else if operator = Some ''AND'' then
            Inr (filter (\<lambda>r. list_all (\<lambda>x. x \<in> set (tags r)) ts) df)
          else Inl ValueError)"

text \<open>The tag filter of \<^verbatim>\<open>analysis_results\<close>: \<^verbatim>\<open>tags\<close> is annotated as a list but
  used as a string \<^verbatim>\<open>"operator:tag,tag"\<close>
  (\<^verbatim>\<open>operator, tags = tags.split(":")\<close>, whose unpacking raises \<^verbatim>\<open>ValueError\<close> unless
  there are exactly two parts; a list has no \<^verbatim>\<open>split\<close>). The first branch compares the
  operator with \<^verbatim>\<open>"any:"\<close>.\<close>

datatype tags_arg = TagList "string list" | TagString string

definition result_tags_filter ::
  "tags_arg option \<Rightarrow> 'a row_scheme list \<Rightarrow> error + 'a row_scheme list" where
  "result_tags_filter tgs df =
     (case tgs of
        None \<Rightarrow> Inr df
      | Some (TagList _) \<Rightarrow> Inl AttributeError
      | Some (TagString s) \<Rightarrow>
          (case split_on CHR '':'' s of
             [operator, tag_str] \<Rightarrow>
               (let ts = split_on CHR '','' tag_str in
                if operator = ''any:'' then
                  Inr (filter (\<lambda>r. list_ex (\<lambda>x. x \<in> set (tags r)) ts) df)
                else if operator = ''AND'' then
                  Inr (filter (\<lambda>r. list_all (\<lambda>x. x \<in> set (tags r)) ts) df)
                else Inl ValueError)
           | _ \<Rightarrow> Inl ValueError))"

text \<open>The sort specification: a string or a list of strings; \<^verbatim>\<open>None\<close> stands for
  \<^verbatim>\<open>"<field>:desc"\<close>. The result is the \<^verbatim>\<open>ascending\<close> flag of the first sort key.\<close>

datatype sort_spec = SortStr string | SortList "string list"

definition parse_sort_by :: "string \<Rightarrow> sort_spec option \<Rightarrow> error + bool" where
  "parse_sort_by field sb =
     (let sort_by = (case sb of None \<Rightarrow> SortStr (field @ '':desc'') | Some s \<Rightarrow> s);
          sort_list = (case sort_by of SortList l \<Rightarrow> l | SortStr s \<Rightarrow> [s])
      in case sort_list of
           [tok] \<Rightarrow>
             (let sortby_split = split_on CHR '':'' tok in
              if length sortby_split \<noteq> 2 then Inl ValueError
              else if sortby_split ! 0 \<noteq> field then Inl ValueError
              else if sortby_split ! 1 \<noteq> ''asc'' \<and> sortby_split ! 1 \<noteq> ''desc''
                then Inl ValueError
              else Inr (sortby_split ! 1 = ''asc''))
         | _ \<Rightarrow> Inl ValueError)"

text \<open>\<^verbatim>\<open>df.column <= bound\<close> and \<^verbatim>\<open>df.column >= bound\<close> on a timestamp
  column: a comparison with a missing value is false.\<close>

definition at_most :: "timestamp option \<Rightarrow> timestamp \<Rightarrow> bool" where
  "at_most v bound = (case v of None \<Rightarrow> False | Some t \<Rightarrow> t \<le> bound)"

definition at_least :: "timestamp option \<Rightarrow> timestamp \<Rightarrow> bool" where
  "at_least v bound = (case v of None \<Rightarrow> False | Some t \<Rightarrow> bound \<le> t)"

text \<open>\<^verbatim>\<open>df.sort_values([ts, "uuid"], ascending=[asc, True])\<close>: a stable sort by the
  timestamp column in the requested direction, then by \<open>uuid\<close> ascending; rows whose
  timestamp is missing come last in either direction (\<^verbatim>\<open>na_position="last"\<close>, the
  default). \<open>row_order ts asc a b\<close> says that \<open>a\<close> may stand before \<open>b\<close>.\<close>

definition row_order ::
  "('a row_scheme \<Rightarrow> timestamp option) \<Rightarrow> bool \<Rightarrow> 'a row_scheme \<Rightarrow> 'a row_scheme \<Rightarrow> bool" where
  "row_order ts asc a b =
     (case ts a of
        None \<Rightarrow> (case ts b of None \<Rightarrow> uuid a \<le> uuid b | Some y \<Rightarrow> False)
      | Some x \<Rightarrow>
          (case ts b of
             None \<Rightarrow> True
           | Some y \<Rightarrow>
               if x = y then uuid a \<le> uuid b
               else if asc then x < y else y < x))"

fun insort_row :: "('r \<Rightarrow> 'r \<Rightarrow> bool) \<Rightarrow> 'r \<Rightarrow> 'r list \<Rightarrow> 'r list" where
  "insort_row le x [] = [x]"
| "insort_row le x (y # ys) = (if le x y then x # y # ys else y # insort_row le x ys)"

definition sort_values ::
  "('a row_scheme \<Rightarrow> timestamp option) \<Rightarrow> bool \<Rightarrow> 'a row_scheme list \<Rightarrow> 'a row_scheme list" where
  "sort_values ts asc df = foldr (insort_row (row_order ts asc)) df []"

subsection \<open>\<^verbatim>\<open>experiments\<close>\<close>

text \<open>The arguments of \<^verbatim>\<open>experiments\<close>. \<^verbatim>\<open>limit\<close> defaults to 10 and
  \<^verbatim>\<open>tags_operator\<close> to \<^verbatim>\<open>"OR"\<close>; the last three fields are the keys the method reads
  from \<^verbatim>\<open>**filters\<close>.\<close>

record exp_query =
  q_limit :: "int option arg"
  q_device_components :: "string option"
  q_experiment_type :: "string option"
  q_backend_name :: "string option"
  q_tags :: "string list option"
  q_parent_id :: "string option"
  q_tags_operator :: "string option arg"
  q_start_datetime_before :: "timestamp option"
  q_start_datetime_after :: "timestamp option"
  q_sort_by :: "sort_spec option"

definition exp_defaults :: exp_query where
  "exp_defaults =
     \<lparr>q_limit = Omitted, q_device_components = None, q_experiment_type = None,
      q_backend_name = None, q_tags = None, q_parent_id = None,
      q_tags_operator = Omitted, q_start_datetime_before = None,
      q_start_datetime_after = None, q_sort_by = None\<rparr>"

definition opt_filter :: "'b option \<Rightarrow> ('b \<Rightarrow> 'r \<Rightarrow> bool) \<Rightarrow> 'r list \<Rightarrow> 'r list" where
  "opt_filter v p df = (case v of None \<Rightarrow> df | Some x \<Rightarrow> filter (p x) df)"

text \<open>The first half of the method, up to the time bounds: the rows the query selects, in
  table order.\<close>

definition select_experiments ::
  "str_contains \<Rightarrow> exp_query \<Rightarrow> client \<Rightarrow> error + experiment_row list" where
  "select_experiments contains q c =
     bind_err (type_filter contains (q_experiment_type q) (db_experiments c)) (\<lambda>df.
       let df = opt_filter (q_backend_name q) (\<lambda>b r. device_name r = b) df;
           df = opt_filter (q_parent_id q) (\<lambda>p r. parent_experiment_uuid r = Some p) df
       in if q_device_components q \<noteq> None then Inl ValueError
          else
            bind_err (tags_filter (q_tags q) (arg_or (Some ''OR'') (q_tags_operator q)) df) (\<lambda>df.
              let df = opt_filter (q_start_datetime_before q) (\<lambda>t r. at_most (start_time r) t) df;
                  df = opt_filter (q_start_datetime_after q) (\<lambda>t r. at_least (start_time r) t) df
              in Inr df))"

text \<open>The second half: the sort specification is checked, the rows are sorted and cut.\<close>

definition experiments ::
  "str_contains \<Rightarrow> exp_query \<Rightarrow> client \<Rightarrow> error + experiment_row list" where
  "experiments contains q c =
     bind_err (select_experiments contains q c) (\<lambda>df.
       bind_err (parse_sort_by ''start_datetime'' (q_sort_by q)) (\<lambda>asc.
         Inr (iloc_upto (arg_or (Some 10) (q_limit q)) (sort_values start_time asc df))))"

subsection \<open>\<^verbatim>\<open>analysis_results\<close>\<close>

text \<open>The arguments of \<^verbatim>\<open>analysis_results\<close>. \<^verbatim>\<open>limit\<close> and \<^verbatim>\<open>marker\<close> have no
  default; \<^verbatim>\<open>marker\<close>, \<^verbatim>\<open>device_components\<close> and \<^verbatim>\<open>created_at\<close> are never read.
  The backend filter reads a column \<^verbatim>\<open>backend_name\<close> that the table does not have.\<close>

record res_query =
  rq_limit :: "int option"
  rq_marker :: "string option"
  rq_backend_name :: "string option"
  rq_device_components :: "string list option"
  rq_experiment_uuid :: "string option"
  rq_result_type :: "string option"
  rq_quality :: "string option"
  rq_verified :: "bool option"
  rq_tags :: "tags_arg option"
  rq_created_at :: "timestamp list option"
  rq_sort_by :: "sort_spec option"

definition res_defaults :: "int option \<Rightarrow> string option \<Rightarrow> res_query" where
  "res_defaults limit marker =
     \<lparr>rq_limit = limit, rq_marker = marker, rq_backend_name = None,
      rq_device_components = None, rq_experiment_uuid = None, rq_result_type = None,
      rq_quality = None, rq_verified = None, rq_tags = None, rq_created_at = None,
      rq_sort_by = None\<rparr>"

definition select_results ::
  "str_contains \<Rightarrow> res_query \<Rightarrow> client \<Rightarrow> error + result_row list" where
  "select_results contains q c =
     (let df = opt_filter (rq_experiment_uuid q) (\<lambda>e r. experiment_uuid r = e) (db_results c)
      in bind_err (type_filter contains (rq_result_type q) df) (\<lambda>df.
           if rq_backend_name q \<noteq> None then Inl AttributeError
           else
             let df = opt_filter (rq_quality q) (\<lambda>v r. quality r = v) df;
                 df = opt_filter (rq_verified q) (\<lambda>v r. verified r = v) df
             in result_tags_filter (rq_tags q) df))"

definition analysis_results ::
  "str_contains \<Rightarrow> res_query \<Rightarrow> client \<Rightarrow> error + result_row list" where
  "analysis_results contains q c =
     bind_err (select_results contains q c) (\<lambda>df.
       bind_err (parse_sort_by ''creation_datetime'' (rq_sort_by q)) (\<lambda>asc.
         Inr (iloc_upto (rq_limit q) (sort_values created_at asc df))))"

subsection \<open>Persistence\<close>

text \<open>\<^verbatim>\<open>create_directories\<close> makes the figures directory when it is missing.\<close>

definition create_directories :: "disk \<Rightarrow> disk" where
  "create_directories d =
     (case figures_dir d of None \<Rightarrow> d\<lparr>figures_dir := Some []\<rparr> | Some _ \<Rightarrow> d)"

text \<open>Writing one file of the figures directory (\<^verbatim>\<open>open(path, "wb")\<close> and
  \<^verbatim>\<open>write\<close>): the file is created or its content replaced. The directory exists whenever
  the client saves, since the constructor creates it first.\<close>

definition write_file :: "string \<Rightarrow> bytes \<Rightarrow> disk \<Rightarrow> disk" where
  "write_file filename figure_data d =
     d\<lparr>figures_dir := map_option (AList.update filename figure_data) (figures_dir d)\<rparr>"

text \<open>\<^verbatim>\<open>_save_figures\<close>: one file \<^verbatim>\<open>f"{exp_id}_{figure_name}"\<close> per figure held in
  memory. Nothing is ever removed from the directory.\<close>

definition save_figures :: "(string \<times> (string \<times> bytes) list) list \<Rightarrow> disk \<Rightarrow> disk" where
  "save_figures figs d =
     fold (\<lambda>(exp_id, exp_figures) d.
             fold (\<lambda>(figure_name, figure_data) d.
                     write_file (exp_id @ ''_'' @ figure_name) figure_data d)
                  exp_figures d)
          figs d"

definition save :: "client \<Rightarrow> client" where
  "save c =
     (if local_save c then
        c\<lparr>storage :=
            save_figures (db_figures c)
              ((storage c)\<lparr>experiments_file := Some (db_experiments c),
                           results_file := Some (db_results c)\<rparr>)\<rparr>
      else c)"

text \<open>\<^verbatim>\<open>_get_figure_list\<close>: for every identifier in the experiments table, the files
  whose name starts with it, keyed by the name after the identifier and one more
  character.\<close>

definition get_figure_list ::
  "experiment_row list \<Rightarrow> (string \<times> bytes) list \<Rightarrow> (string \<times> (string \<times> bytes) list) list" where
  "get_figure_list exps files =
     fold (\<lambda>exp_id figures.
             AList.update exp_id
               (fold (\<lambda>(filename, figure_data) figures_for_exp.
                        if startswith filename exp_id then
                          AList.update (drop (length exp_id + 1) filename) figure_data
                            figures_for_exp
                        else figures_for_exp)
                     files [])
               figures)
          (map uuid exps) []"

definition init_db :: "client \<Rightarrow> client" where
  "init_db c =
     save
       (if local_save c then
          (let exps = (case experiments_file (storage c) of Some t \<Rightarrow> t | None \<Rightarrow> []);
               ress = (case results_file (storage c) of Some t \<Rightarrow> t | None \<Rightarrow> [])
           in c\<lparr>db_experiments := exps,
                db_results := ress,
                db_figures :=
                  (case figures_dir (storage c) of
                     Some files \<Rightarrow> get_figure_list exps files
                   | None \<Rightarrow> [])\<rparr>)
        else c\<lparr>db_experiments := [], db_results := [], db_figures := []\<rparr>)"

text \<open>The constructor. \<open>flag\<close> is \<^verbatim>\<open>local_save and main_dir is not None\<close> and \<open>d\<close> the
  content of \<^verbatim>\<open>main_dir\<close>.\<close>

definition LocalExperimentClient :: "bool \<Rightarrow> disk \<Rightarrow> client" where
  "LocalExperimentClient flag d =
     init_db \<lparr>local_save = flag, db_experiments = [], db_results = [], db_figures = [],
              storage = (if flag then create_directories d else d)\<rparr>"

definition empty_disk :: disk where
  "empty_disk = \<lparr>experiments_file = None, results_file = None, figures_dir = None\<rparr>"

subsection \<open>Payloads\<close>

text \<open>The JSON payload of an upload: the columns of the row, with \<^verbatim>\<open>uuid\<close> (and, for a
  result, \<^verbatim>\<open>experiment_uuid\<close>) possibly absent.\<close>

record row_json =
  j_uuid :: "string option"
  j_type :: string
  j_device_name :: string
  j_tags :: "string list"

record experiment_json = row_json +
  j_parent_experiment_uuid :: "string option"
  j_start_time :: "timestamp option"

record result_json = row_json +
  j_experiment_uuid :: "string option"
  j_quality :: string
  j_verified :: bool
  j_created_at :: "timestamp option"

text \<open>The JSON payload of an update: any subset of the columns, each with its new value.\<close>

record row_patch =
  u_uuid :: "string option"
  u_type :: "string option"
  u_device_name :: "string option"
  u_tags :: "string list option"

record experiment_patch = row_patch +
  u_parent_experiment_uuid :: "string option option"
  u_start_time :: "timestamp option"

record result_patch = row_patch +
  u_experiment_uuid :: "string option"
  u_quality :: "string option"
  u_verified :: "bool option"
  u_created_at :: "timestamp option"

fun set_if :: "'a option \<Rightarrow> 'a \<Rightarrow> 'a" where
  "set_if None old = old"
| "set_if (Some v) old = v"

text \<open>\<^verbatim>\<open>for key, value in new_data_dict.items(): df.at[index, key] = value\<close>.\<close>

definition patch_row :: "'p row_patch_scheme \<Rightarrow> 'a row_scheme \<Rightarrow> 'a row_scheme" where
  "patch_row p r =
     r\<lparr>uuid := set_if (u_uuid p) (uuid r),
       type := set_if (u_type p) (type r),
       device_name := set_if (u_device_name p) (device_name r),
       tags := set_if (u_tags p) (tags r)\<rparr>"

definition patch_experiment :: "experiment_patch \<Rightarrow> experiment_row \<Rightarrow> experiment_row" where
  "patch_experiment p r =
     (patch_row p r)
       \<lparr>parent_experiment_uuid := set_if (u_parent_experiment_uuid p) (parent_experiment_uuid r),
        start_time := (case u_start_time p of None \<Rightarrow> start_time r | Some t \<Rightarrow> Some t)\<rparr>"

definition patch_result :: "result_patch \<Rightarrow> result_row \<Rightarrow> result_row" where
  "patch_result p r =
     (patch_row p r)
       \<lparr>experiment_uuid := set_if (u_experiment_uuid p) (experiment_uuid r),
        quality := set_if (u_quality p) (quality r),
        verified := set_if (u_verified p) (verified r),
        created_at := (case u_created_at p of None \<Rightarrow> created_at r | Some t \<Rightarrow> Some t)\<rparr>"

text \<open>\<^verbatim>\<open>df.loc[df.uuid == id]\<close>, the row \<^verbatim>\<open>index[0]\<close> names, and \<^verbatim>\<open>serialize\<close>, which
  returns \<^verbatim>\<open>to_dict("records")[0]\<close>.\<close>

definition loc_uuid :: "string \<Rightarrow> 'a row_scheme list \<Rightarrow> 'a row_scheme list" where
  "loc_uuid ident df = filter (\<lambda>r. uuid r = ident) df"

fun update_first :: "('r \<Rightarrow> bool) \<Rightarrow> ('r \<Rightarrow> 'r) \<Rightarrow> 'r list \<Rightarrow> 'r list" where
  "update_first p f [] = []"
| "update_first p f (x # xs) = (if p x then f x # xs else x # update_first p f xs)"

definition serialize :: "'r list \<Rightarrow> error + 'r" where
  "serialize df = (case df of [] \<Rightarrow> Inl IndexError | r # _ \<Rightarrow> Inr r)"

subsection \<open>Experiments\<close>

definition experiment_get :: "string \<Rightarrow> client \<Rightarrow> error + experiment_row" where
  "experiment_get experiment_id c =
     (let exp = loc_uuid experiment_id (db_experiments c) in
      if exp = [] then Inl IBMExperimentEntryNotFound else serialize exp)"

text \<open>\<open>fresh\<close> is the value \<^verbatim>\<open>str(uuid.uuid4())\<close> takes in this call.\<close>

definition experiment_upload ::
  "string \<Rightarrow> experiment_json \<Rightarrow> client \<Rightarrow> (error + experiment_row) \<times> client" where
  "experiment_upload fresh data c =
     (let ident = (case j_uuid data of None \<Rightarrow> fresh | Some v \<Rightarrow> v) in
      if loc_uuid ident (db_experiments c) \<noteq> [] then (Inl IBMExperimentEntryExists, c)
      else
        (let r = \<lparr>uuid = ident, type = j_type data, device_name = j_device_name data,
                  tags = j_tags data,
                  parent_experiment_uuid = j_parent_experiment_uuid data,
                  start_time = j_start_time data\<rparr>
         in (Inr r, save (c\<lparr>db_experiments := db_experiments c @ [r]\<rparr>))))"

definition experiment_update ::
  "string \<Rightarrow> experiment_patch \<Rightarrow> client \<Rightarrow> (error + experiment_row) \<times> client" where
  "experiment_update experiment_id new_data c =
     (if loc_uuid experiment_id (db_experiments c) = [] then (Inl IBMExperimentEntryNotFound, c)
      else
        (let c' = save (c\<lparr>db_experiments :=
                            update_first (\<lambda>r. uuid r = experiment_id)
                              (patch_experiment new_data) (db_experiments c)\<rparr>)
         in (serialize (loc_uuid experiment_id (db_experiments c')), c')))"

definition experiment_delete ::
  "string \<Rightarrow> client \<Rightarrow> (error + experiment_row) \<times> client" where
  "experiment_delete experiment_id c =
     (let exp = loc_uuid experiment_id (db_experiments c) in
      if exp = [] then (Inl IBMExperimentEntryNotFound, c)
      else
        (serialize exp,
         save (c\<lparr>db_experiments :=
                    filter (\<lambda>r. uuid r \<noteq> experiment_id) (db_experiments c)\<rparr>)))"

subsection \<open>Plots\<close>

text \<open>\<^verbatim>\<open>self._figures[experiment_id]\<close> raises \<^verbatim>\<open>KeyError\<close> when the identifier is not a
  key of the dictionary; only \<^verbatim>\<open>experiment_plot_upload\<close> adds the key first.\<close>

definition experiment_plot_upload ::
  "string \<Rightarrow> bytes \<Rightarrow> string \<Rightarrow> client \<Rightarrow> (error + bool) \<times> client" where
  "experiment_plot_upload experiment_id plot plot_name c =
     (let figs = (if map_of (db_figures c) experiment_id = None
                  then AList.update experiment_id [] (db_figures c)
                  else db_figures c);
          exp_figures = (case map_of figs experiment_id of None \<Rightarrow> [] | Some d \<Rightarrow> d)
      in if map_of exp_figures plot_name \<noteq> None
         then (Inl (RequestsApiError (Some 409)), c\<lparr>db_figures := figs\<rparr>)
         else (Inr True,
               save (c\<lparr>db_figures :=
                         AList.update experiment_id
                           (AList.update plot_name plot exp_figures) figs\<rparr>)))"

definition experiment_plot_update ::
  "string \<Rightarrow> bytes \<Rightarrow> string \<Rightarrow> client \<Rightarrow> (error + string \<times> nat) \<times> client" where
  "experiment_plot_update experiment_id plot plot_name c =
     (case map_of (db_figures c) experiment_id of
        None \<Rightarrow> (Inl KeyError, c)
      | Some exp_figures \<Rightarrow>
          if map_of exp_figures plot_name = None
          then (Inl (RequestsApiError (Some 404)), c)
          else (Inr (plot_name, length plot),
                save (c\<lparr>db_figures :=
                          AList.update experiment_id
                            (AList.update plot_name plot exp_figures) (db_figures c)\<rparr>)))"

definition experiment_plot_get :: "string \<Rightarrow> string \<Rightarrow> client \<Rightarrow> error + bytes" where
  "experiment_plot_get experiment_id plot_name c =
     (case map_of (db_figures c) experiment_id of
        None \<Rightarrow> Inl KeyError
      | Some exp_figures \<Rightarrow>
          (case map_of exp_figures plot_name of
             None \<Rightarrow> Inl (RequestsApiError (Some 404))
           | Some plot \<Rightarrow> Inr plot))"

text \<open>\<^verbatim>\<open>experiment_plot_delete\<close> ends with \<^verbatim>\<open>del exp_figures[plot_name]\<close>; it does not
  call \<^verbatim>\<open>save\<close>.\<close>

definition experiment_plot_delete ::
  "string \<Rightarrow> string \<Rightarrow> client \<Rightarrow> (error + unit) \<times> client" where
  "experiment_plot_delete experiment_id plot_name c =
     (case map_of (db_figures c) experiment_id of
        None \<Rightarrow> (Inl KeyError, c)
      | Some exp_figures \<Rightarrow>
          if map_of exp_figures plot_name = None
          then (Inl (RequestsApiError (Some 404)), c)
          else (Inr (),
                c\<lparr>db_figures :=
                    AList.update experiment_id
                      (AList.delete plot_name exp_figures) (db_figures c)\<rparr>))"

subsection \<open>Analysis results\<close>

definition analysis_result_create ::
  "string \<Rightarrow> result_json \<Rightarrow> client \<Rightarrow> (error + result_row) \<times> client" where
  "analysis_result_create fresh data c =
     (case j_experiment_uuid data of
        None \<Rightarrow> (Inl (RequestsApiError None), c)
      | Some exp_id \<Rightarrow>
          (case loc_uuid exp_id (db_experiments c) of
             [] \<Rightarrow> (Inl (RequestsApiError (Some 404)), c)
           | exp # _ \<Rightarrow>
               (let r = \<lparr>uuid = (case j_uuid data of None \<Rightarrow> fresh | Some v \<Rightarrow> v),
                         type = j_type data, device_name = device_name exp,
                         tags = j_tags data,
                         experiment_uuid = exp_id, quality = j_quality data,
                         verified = j_verified data, created_at = j_created_at data\<rparr>
                in (Inr r, save (c\<lparr>db_results := db_results c @ [r]\<rparr>)))))"

definition analysis_result_update ::
  "string \<Rightarrow> result_patch \<Rightarrow> client \<Rightarrow> (error + result_row) \<times> client" where
  "analysis_result_update result_id new_data c =
     (if loc_uuid result_id (db_results c) = [] then (Inl IBMExperimentEntryNotFound, c)
      else
        (let c' = save (c\<lparr>db_results :=
                            update_first (\<lambda>r. uuid r = result_id)
                              (patch_result new_data) (db_results c)\<rparr>)
         in (serialize (loc_uuid result_id (db_results c')), c')))"

definition analysis_result_delete ::
  "string \<Rightarrow> client \<Rightarrow> (error + result_row) \<times> client" where
  "analysis_result_delete result_id c =
     (let result = loc_uuid result_id (db_results c) in
      if result = [] then (Inl IBMExperimentEntryNotFound, c)
      else
        (serialize result,
         save (c\<lparr>db_results := filter (\<lambda>r. uuid r \<noteq> result_id) (db_results c)\<rparr>)))"

definition analysis_result_get :: "string \<Rightarrow> client \<Rightarrow> error + result_row" where
  "analysis_result_get result_id c =
     (let result = loc_uuid result_id (db_results c) in
      if result = [] then Inl IBMExperimentEntryNotFound else serialize result)"

subsection \<open>Sample data\<close>

text \<open>Payloads, rows and clients used to run the methods on concrete inputs.\<close>

definition sample_experiment ::
  "string \<Rightarrow> string \<Rightarrow> string \<Rightarrow> string list \<Rightarrow> timestamp \<Rightarrow> experiment_json" where
  "sample_experiment ident ty dev tgs t =
     \<lparr>j_uuid = Some ident, j_type = ty, j_device_name = dev, j_tags = tgs,
      j_parent_experiment_uuid = None, j_start_time = Some t\<rparr>"

definition sample_row ::
  "string \<Rightarrow> string \<Rightarrow> string \<Rightarrow> string list \<Rightarrow> timestamp \<Rightarrow> experiment_row" where
  "sample_row ident ty dev tgs t =
     \<lparr>uuid = ident, type = ty, device_name = dev, tags = tgs,
      parent_experiment_uuid = None, start_time = Some t\<rparr>"

definition sample_result ::
  "string \<Rightarrow> string \<Rightarrow> string \<Rightarrow> string list \<Rightarrow> timestamp \<Rightarrow> result_json" where
  "sample_result ident exp_id ty tgs t =
     \<lparr>j_uuid = Some ident, j_type = ty, j_device_name = [], j_tags = tgs,
      j_experiment_uuid = Some exp_id, j_quality = ''good'', j_verified = False,
      j_created_at = Some t\<rparr>"

definition sample_result_row ::
  "string \<Rightarrow> string \<Rightarrow> string \<Rightarrow> string \<Rightarrow> string list \<Rightarrow> timestamp \<Rightarrow> result_row" where
  "sample_result_row ident exp_id ty dev tgs t =
     \<lparr>uuid = ident, type = ty, device_name = dev, tags = tgs,
      experiment_uuid = exp_id, quality = ''good'', verified = False, created_at = Some t\<rparr>"

definition three_experiments :: client where
  "three_experiments =
     snd (experiment_upload ''g3'' (sample_experiment ''e2'' ''T1'' ''dev'' [''y''] 2)
       (snd (experiment_upload ''g2'' (sample_experiment ''e1'' ''T1'' ''dev'' [''x''] 1)
         (snd (experiment_upload ''g1'' (sample_experiment ''e3'' ''T2'' ''dev'' [''x'', ''y''] 2)
           (LocalExperimentClient True empty_disk))))))"

definition three_results :: client where
  "three_results =
     snd (analysis_result_create ''g6'' (sample_result ''r2'' ''e1'' ''A'' [''a''] 7)
       (snd (analysis_result_create ''g5'' (sample_result ''r1'' ''e1'' ''A'' [''a''] 5)
         (snd (analysis_result_create ''g4'' (sample_result ''r3'' ''e2'' ''B'' [''b''] 7)
           three_experiments)))))"

definition eleven_experiments :: client where
  "eleven_experiments =
     fold (\<lambda>ident c. snd (experiment_upload ''g'' (sample_experiment ident ''T1'' ''dev'' [] 0) c))
       [''a'', ''b'', ''c'', ''d'', ''e'', ''f'', ''g'', ''h'', ''i'', ''j'', ''k'']
       (LocalExperimentClient False empty_disk)"

definition no_patch :: experiment_patch where
  "no_patch = \<lparr>u_uuid = None, u_type = None, u_device_name = None, u_tags = None,
     u_parent_experiment_uuid = None, u_start_time = None\<rparr>"

definition one_plot :: client where
  "one_plot =
     snd (experiment_plot_upload ''e1'' ''DATA'' ''fig''
       (snd (experiment_upload ''g1'' (sample_experiment ''e1'' ''T1'' ''dev'' [''x''] 1)
         (LocalExperimentClient True empty_disk))))"

text \<open>Analysis results as the client stores them when the payload carries no
  \<^verbatim>\<open>created_at\<close>: two of the three have no timestamp.\<close>

definition undated_results :: client where
  "undated_results =
     snd (analysis_result_create ''g6''
            ((sample_result ''r1'' ''e1'' ''A'' [''a''] 0)\<lparr>j_created_at := None\<rparr>)
       (snd (analysis_result_create ''g5'' (sample_result ''r3'' ''e2'' ''B'' [''b''] 7)
         (snd (analysis_result_create ''g4''
                 ((sample_result ''r2'' ''e1'' ''A'' [''a''] 0)\<lparr>j_created_at := None\<rparr>)
           three_experiments)))))"

section \<open>Properties of the list methods\<close>

lemma insort_row_set: "set (insort_row le x xs) = insert x (set xs)"
  by (induction xs) auto

lemma insort_row_sorted:
  assumes total: "\<And>a b. le a b \<or> le b a"
    and trans: "\<And>a b c. le a b \<Longrightarrow> le b c \<Longrightarrow> le a c"
  shows "sorted_wrt le xs \<Longrightarrow> sorted_wrt le (insort_row le x xs)"
proof (induction xs)
  case Nil
  then show ?case by simp
next
  case (Cons y ys)
  show ?case
  proof (cases "le x y")
    case True
    have "\<forall>z\<in>set ys. le x z" using Cons.prems True trans by auto
    with True Cons.prems show ?thesis by simp
  next
    case False
    then have "le y x" using total by blast
    with False Cons show ?thesis by (auto simp: insort_row_set)
  qed
qed

lemma row_order_total: "row_order ts asc a b \<or> row_order ts asc b a"
  by (auto simp: row_order_def split: option.splits)

lemma row_order_trans:
  "row_order ts asc a b \<Longrightarrow> row_order ts asc b c \<Longrightarrow> row_order ts asc a c"
  by (auto simp: row_order_def split: option.splits if_splits)

lemma row_order_antisym:
  "row_order ts asc a b \<Longrightarrow> row_order ts asc b a \<Longrightarrow> uuid a = uuid b"
  by (auto simp: row_order_def split: option.splits if_splits)

lemma sort_values_sorted: "sorted_wrt (row_order ts asc) (sort_values ts asc df)"
  unfolding sort_values_def
proof (induction df)
  case Nil
  then show ?case by simp
next
  case (Cons r df)
  have "sorted_wrt (row_order ts asc)
          (insort_row (row_order ts asc) r (foldr (insort_row (row_order ts asc)) df []))"
    by (rule insort_row_sorted[OF row_order_total _ Cons.IH]) (rule row_order_trans)
  then show ?case by simp
qed

lemma insort_row_mset: "mset (insort_row le x xs) = add_mset x (mset xs)"
  by (induction xs) auto

lemma sort_values_mset: "mset (sort_values ts asc df) = mset df"
  unfolding sort_values_def by (induction df) (auto simp: insort_row_mset)

lemma sort_values_set: "set (sort_values ts asc df) = set df"
  using sort_values_mset[of ts asc df] by (metis set_mset_mset)

lemma iloc_upto_take: "\<exists>k. iloc_upto limit df = take k df"
  by (cases limit) (auto simp: iloc_upto_def intro: exI[of _ "length df"])

lemma iloc_upto_sorted: "sorted_wrt le df \<Longrightarrow> sorted_wrt le (iloc_upto limit df)"
  using iloc_upto_take[of limit df] by (auto simp: sorted_wrt_take)

lemma loc_mask_map: "loc_mask (map p df) df = filter p df"
  by (induction df) (auto simp: loc_mask_def)

lemma loc_mask_subset: "set (loc_mask keep df) \<subseteq> set df"
  unfolding loc_mask_def by (auto dest: set_zip_rightD)

lemma split_on_not_Nil: "split_on c s \<noteq> []"
  by (induction s) (auto split: list.splits)

lemma split_on_one: "split_on c s = [b] \<Longrightarrow> s = b"
  by (induction s arbitrary: b) (auto split: if_splits list.splits simp: split_on_not_Nil)

lemma split_on_two: "split_on c s = [a, b] \<Longrightarrow> s = a @ c # b"
proof (induction s arbitrary: a)
  case Nil
  then show ?case by simp
next
  case (Cons x xs)
  show ?case
  proof (cases "x = c")
    case True
    with Cons.prems have "a = []" "split_on c xs = [b]" by auto
    then show ?thesis using True split_on_one by fastforce
  next
    case False
    with Cons.prems obtain w where "a = x # w" "split_on c xs = [w, b]"
      by (auto split: list.splits)
    then show ?thesis using Cons.IH by simp
  qed
qed

lemma split_on_sep_Cons: "split_on c (c # s) = [] # split_on c s"
  by simp

lemma split_on_append_sep:
  "c \<notin> set a \<Longrightarrow> split_on c (a @ c # s) = a # split_on c s"
  by (induction a) (auto split: list.splits)

lemma split_on_no_sep: "c \<notin> set a \<Longrightarrow> split_on c a = [a]"
  by (induction a) (auto split: list.splits)

lemma like_prefix_split:
  assumes "take 5 t = ''like:''"
  shows "split_on CHR '':'' t = ''like'' # split_on CHR '':'' (drop 5 t)"
proof -
  have "t = ''like'' @ CHR '':'' # drop 5 t"
    using assms append_take_drop_id[of 5 t] by simp
  then have "split_on CHR '':'' t = split_on CHR '':'' (''like'' @ CHR '':'' # drop 5 t)" by simp
  also have "\<dots> = ''like'' # split_on CHR '':'' (drop 5 t)"
    by (rule split_on_append_sep) simp
  finally show ?thesis .
qed

lemma type_filter_subset: "type_filter contains ft df = Inr df' \<Longrightarrow> set df' \<subseteq> set df"
  using loc_mask_subset
  by (fastforce simp: type_filter_def split: option.splits if_splits list.splits sum.splits)

lemma type_filter_raises:
  assumes "type_filter contains ft df = Inl e"
  shows "\<exists>t pat. ft = Some t \<and> take 5 t = ''like:'' \<and> contains (map type df) pat = Inl e"
proof -
  from assms obtain t where t: "ft = Some t" "take 5 t = ''like:''"
    by (auto simp: type_filter_def split: option.splits if_splits)
  obtain p ps where "split_on CHR '':'' (drop 5 t) = p # ps"
    using split_on_not_Nil by (cases "split_on CHR '':'' (drop 5 t)") auto
  with like_prefix_split[OF t(2)] have "split_on CHR '':'' t = ''like'' # p # ps" by simp
  with assms t have "contains (map type df) p = Inl e"
    by (auto simp: type_filter_def split: sum.splits)
  with t show ?thesis by blast
qed

lemma type_filter_no_pattern:
  assumes "ft = None \<or> (\<exists>t. ft = Some t \<and> take 5 t \<noteq> ''like:'')"
  shows "\<exists>df'. type_filter contains ft df = Inr df'"
  using assms by (auto simp: type_filter_def)

lemma parse_sort_by_Inr:
  assumes "parse_sort_by field sb = Inr asc"
  shows "if asc then sb = Some (SortStr (field @ '':asc'')) \<or> sb = Some (SortList [field @ '':asc''])
         else sb = None \<or> sb = Some (SortStr (field @ '':desc'')) \<or> sb = Some (SortList [field @ '':desc''])"
proof -
  define sl where "sl = (case (case sb of None \<Rightarrow> SortStr (field @ '':desc'') | Some s \<Rightarrow> s) of
                           SortList l \<Rightarrow> l | SortStr s \<Rightarrow> [s])"
  from assms obtain tok where sl: "sl = [tok]"
    unfolding parse_sort_by_def Let_def sl_def[symmetric]
    by (auto split: list.splits)
  from assms sl have len: "length (split_on CHR '':'' tok) = 2"
    and f: "split_on CHR '':'' tok ! 0 = field"
    and d: "split_on CHR '':'' tok ! 1 = ''asc'' \<or> split_on CHR '':'' tok ! 1 = ''desc''"
    and a: "asc = (split_on CHR '':'' tok ! 1 = ''asc'')"
    unfolding parse_sort_by_def Let_def sl_def[symmetric]
    by (auto split: if_splits)
  from len obtain x y where xy: "split_on CHR '':'' tok = [x, y]"
    by (cases "split_on CHR '':'' tok"; cases "tl (split_on CHR '':'' tok)") auto
  with f d have "x = field" "y = ''asc'' \<or> y = ''desc''" by auto
  with split_on_two[OF xy] a xy have tok: "tok = field @ (if asc then '':asc'' else '':desc'')"
    by auto
  show ?thesis
  proof (cases sb)
    case None
    with sl tok show ?thesis by (auto simp: sl_def split: if_splits)
  next
    case (Some s)
    with sl tok show ?thesis by (cases s) (auto simp: sl_def split: if_splits)
  qed
qed

lemma parse_sort_by_valid:
  "CHR '':'' \<notin> set field \<Longrightarrow>
   parse_sort_by field None = Inr False \<and>
   parse_sort_by field (Some (SortStr (field @ '':desc''))) = Inr False \<and>
   parse_sort_by field (Some (SortList [field @ '':desc''])) = Inr False \<and>
   parse_sort_by field (Some (SortStr (field @ '':asc''))) = Inr True \<and>
   parse_sort_by field (Some (SortList [field @ '':asc''])) = Inr True"
  by (simp add: parse_sort_by_def split_on_append_sep split_on_no_sep)

lemma opt_filter_subset: "set (opt_filter v p df) \<subseteq> set df"
  by (cases v) (auto simp: opt_filter_def)

lemma opt_filter2_subset: "set (opt_filter v p (opt_filter w q df)) \<subseteq> set df"
  by (cases v; cases w) (auto simp: opt_filter_def)

lemma tags_filter_subset: "tags_filter tgs operator df = Inr df' \<Longrightarrow> set df' \<subseteq> set df"
  by (auto simp: tags_filter_def split: option.splits if_splits)

lemma result_tags_filter_subset: "result_tags_filter tgs df = Inr df' \<Longrightarrow> set df' \<subseteq> set df"
  by (auto simp: result_tags_filter_def Let_def split: option.splits if_splits list.splits tags_arg.splits)

lemma select_experiments_subset:
  assumes "select_experiments contains q c = Inr df"
  shows "set df \<subseteq> set (db_experiments c)"
proof -
  from assms obtain df1 where
    1: "type_filter contains (q_experiment_type q) (db_experiments c) = Inr df1"
    by (auto simp: select_experiments_def bind_err_def split: sum.splits)
  define df2 where "df2 = opt_filter (q_parent_id q) (\<lambda>p r. parent_experiment_uuid r = Some p)
     (opt_filter (q_backend_name q) (\<lambda>b r. device_name r = b) df1)"
  from assms 1 obtain df3 where
    3: "tags_filter (q_tags q) (arg_or (Some ''OR'') (q_tags_operator q)) df2 = Inr df3"
    and df: "df = opt_filter (q_start_datetime_after q) (\<lambda>t r. at_least (start_time r) t)
              (opt_filter (q_start_datetime_before q) (\<lambda>t r. at_most (start_time r) t) df3)"
    by (auto simp: select_experiments_def bind_err_def Let_def df2_def split: sum.splits if_splits)
  have "set df \<subseteq> set df3" unfolding df by (rule opt_filter2_subset)
  also have "\<dots> \<subseteq> set df2" using 3 by (rule tags_filter_subset)
  also have "\<dots> \<subseteq> set df1" unfolding df2_def by (rule opt_filter2_subset)
  also have "\<dots> \<subseteq> set (db_experiments c)" using 1 by (rule type_filter_subset)
  finally show ?thesis .
qed

lemma select_results_subset:
  assumes "select_results contains q c = Inr df"
  shows "set df \<subseteq> set (db_results c)"
proof -
  define df0 where "df0 = opt_filter (rq_experiment_uuid q) (\<lambda>e r. experiment_uuid r = e) (db_results c)"
  from assms obtain df1 where 1: "type_filter contains (rq_result_type q) df0 = Inr df1"
    by (auto simp: select_results_def bind_err_def Let_def df0_def split: sum.splits)
  define df2 where "df2 = opt_filter (rq_verified q) (\<lambda>v r. verified r = v)
     (opt_filter (rq_quality q) (\<lambda>v r. quality r = v) df1)"
  from assms 1 have 3: "result_tags_filter (rq_tags q) df2 = Inr df"
    by (auto simp: select_results_def bind_err_def Let_def df0_def df2_def split: if_splits)
  have "set df \<subseteq> set df2" using 3 by (rule result_tags_filter_subset)
  also have "\<dots> \<subseteq> set df1" unfolding df2_def by (rule opt_filter2_subset)
  also have "\<dots> \<subseteq> set df0" using 1 by (rule type_filter_subset)
  also have "\<dots> \<subseteq> set (db_results c)" unfolding df0_def by (rule opt_filter_subset)
  finally show ?thesis .
qed

lemma select_experiments_limit:
  "select_experiments contains (q\<lparr>q_limit := l\<rparr>) c = select_experiments contains q c"
  by (simp add: select_experiments_def Let_def cong: if_cong)

lemma select_results_limit:
  "select_results contains (q\<lparr>rq_limit := l\<rparr>) c = select_results contains q c"
  by (simp add: select_results_def Let_def cong: if_cong)

lemma select_results_device_components:
  "select_results contains (q\<lparr>rq_device_components := d\<rparr>) c = select_results contains q c"
  by (simp add: select_results_def Let_def cong: if_cong)

lemma experiments_shape:
  assumes "experiments contains q c = Inr rows"
  shows "\<exists>asc df. select_experiments contains q c = Inr df \<and>
           parse_sort_by ''start_datetime'' (q_sort_by q) = Inr asc \<and>
           (\<forall>l. experiments contains (q\<lparr>q_limit := l\<rparr>) c =
                Inr (iloc_upto (arg_or (Some 10) l) (sort_values start_time asc df)))"
proof -
  from assms obtain df where 1: "select_experiments contains q c = Inr df"
    by (auto simp: experiments_def bind_err_def split: sum.splits)
  with assms obtain asc where 2: "parse_sort_by ''start_datetime'' (q_sort_by q) = Inr asc"
    by (auto simp: experiments_def bind_err_def split: sum.splits)
  have "experiments contains (q\<lparr>q_limit := l\<rparr>) c =
          Inr (iloc_upto (arg_or (Some 10) l) (sort_values start_time asc df))" for l
    using 1 2 by (simp add: experiments_def bind_err_def select_experiments_limit)
  with 1 2 show ?thesis by blast
qed

lemma analysis_results_shape:
  assumes "analysis_results contains q c = Inr rows"
  shows "\<exists>asc df. select_results contains q c = Inr df \<and>
           parse_sort_by ''creation_datetime'' (rq_sort_by q) = Inr asc \<and>
           (\<forall>l. analysis_results contains (q\<lparr>rq_limit := l\<rparr>) c =
                Inr (iloc_upto l (sort_values created_at asc df)))"
proof -
  from assms obtain df where 1: "select_results contains q c = Inr df"
    by (auto simp: analysis_results_def bind_err_def split: sum.splits)
  with assms obtain asc where 2: "parse_sort_by ''creation_datetime'' (rq_sort_by q) = Inr asc"
    by (auto simp: analysis_results_def bind_err_def split: sum.splits)
  have "analysis_results contains (q\<lparr>rq_limit := l\<rparr>) c =
          Inr (iloc_upto l (sort_values created_at asc df))" for l
    using 1 2 by (simp add: analysis_results_def bind_err_def select_results_limit)
  with 1 2 show ?thesis by blast
qed

lemma sorted_wrt_unique:
  assumes anti: "\<And>a b. a \<in> set xs \<Longrightarrow> b \<in> set xs \<Longrightarrow> le a b \<Longrightarrow> le b a \<Longrightarrow> a = b"
  shows "sorted_wrt le xs \<Longrightarrow> sorted_wrt le ys \<Longrightarrow> mset xs = mset ys \<Longrightarrow> xs = ys"
  using anti
proof (induction xs arbitrary: ys)
  case Nil
  then show ?case by simp
next
  case (Cons x xs)
  from Cons.prems(3) obtain y ys' where ys: "ys = y # ys'" by (cases ys) auto
  have sets: "set (x # xs) = set ys" using Cons.prems(3) by (metis set_mset_mset)
  have "x = y"
  proof (rule ccontr)
    assume ne: "x \<noteq> y"
    with sets ys have mem: "x \<in> set ys'" "y \<in> set xs" by auto
    with Cons.prems(1,2) ys have le: "le y x" "le x y" by auto
    have "x \<in> set (x # xs)" "y \<in> set (x # xs)" using mem by simp_all
    then have "x = y" using le Cons.prems(4) by blast
    with ne show False by simp
  qed
  with Cons.prems ys have "xs = ys'"
    by (intro Cons.IH) auto
  with \<open>x = y\<close> ys show ?case by simp
qed

lemma sort_values_unique:
  assumes "distinct (map uuid df)" and "mset df' = mset df"
  shows "sort_values ts asc df' = sort_values ts asc df"
proof (rule sorted_wrt_unique[where le = "row_order ts asc"])
  fix a b
  assume "a \<in> set (sort_values ts asc df')" "b \<in> set (sort_values ts asc df')"
    and "row_order ts asc a b" "row_order ts asc b a"
  then have "a \<in> set df" "b \<in> set df" "uuid a = uuid b"
    using assms(2) by (auto simp: sort_values_set dest: mset_eq_setD row_order_antisym)
  with assms(1) show "a = b" by (meson distinct_map inj_onD)
qed (simp_all add: sort_values_sorted sort_values_mset assms)

text \<open>\<^verbatim>\<open>experiments\<close> raises \<^verbatim>\<open>ValueError\<close> or what the type filter raised, and
  returns rows when the type filter did and the other arguments are supported.\<close>

lemma experiments_raises:
  assumes "experiments contains q c = Inl e"
  shows "e = ValueError \<or>
         type_filter contains (q_experiment_type q) (db_experiments c) = Inl e"
proof (cases "type_filter contains (q_experiment_type q) (db_experiments c)")
  case (Inl e')
  with assms show ?thesis
    by (simp add: experiments_def select_experiments_def bind_err_def)
next
  case (Inr df1)
  define df2 where "df2 = opt_filter (q_parent_id q) (\<lambda>p r. parent_experiment_uuid r = Some p)
     (opt_filter (q_backend_name q) (\<lambda>b r. device_name r = b) df1)"
  show ?thesis
  proof (cases "q_device_components q = None")
    case False
    with assms Inr show ?thesis
      by (simp add: experiments_def select_experiments_def bind_err_def Let_def)
  next
    case dc: True
    show ?thesis
    proof (cases "tags_filter (q_tags q) (arg_or (Some ''OR'') (q_tags_operator q)) df2")
      case (Inl e')
      with assms Inr dc have "e = e'"
        by (simp add: experiments_def select_experiments_def bind_err_def Let_def df2_def)
      moreover from Inl have "e' = ValueError"
        by (auto simp: tags_filter_def split: option.splits if_splits)
      ultimately show ?thesis by simp
    next
      case tf: (Inr df3)
      with assms Inr dc have "parse_sort_by ''start_datetime'' (q_sort_by q) = Inl e"
        by (cases "parse_sort_by ''start_datetime'' (q_sort_by q)")
           (auto simp: experiments_def select_experiments_def bind_err_def Let_def df2_def)
      then have "e = ValueError"
        by (auto simp: parse_sort_by_def Let_def split: list.splits if_splits)
      then show ?thesis by simp
    qed
  qed
qed

lemma experiments_succeeds:
  assumes "type_filter contains (q_experiment_type q) (db_experiments c) = Inr df1"
    and "q_device_components q = None"
    and "q_tags q = None \<or> arg_or (Some ''OR'') (q_tags_operator q) = Some ''OR'' \<or>
         arg_or (Some ''OR'') (q_tags_operator q) = Some ''AND''"
    and "q_sort_by q = None \<or>
         q_sort_by q = Some (SortStr ''start_datetime:asc'') \<or>
         q_sort_by q = Some (SortStr ''start_datetime:desc'') \<or>
         q_sort_by q = Some (SortList [''start_datetime:asc'']) \<or>
         q_sort_by q = Some (SortList [''start_datetime:desc''])"
  shows "\<exists>rows. experiments contains q c = Inr rows"
proof -
  define df2 where "df2 = opt_filter (q_parent_id q) (\<lambda>p r. parent_experiment_uuid r = Some p)
     (opt_filter (q_backend_name q) (\<lambda>b r. device_name r = b) df1)"
  have "\<exists>df3. tags_filter (q_tags q) (arg_or (Some ''OR'') (q_tags_operator q)) df2 = Inr df3"
    using assms(3) by (cases "q_tags q") (auto simp: tags_filter_def)
  then obtain df3 where
    3: "tags_filter (q_tags q) (arg_or (Some ''OR'') (q_tags_operator q)) df2 = Inr df3"
    by blast
  have v: "parse_sort_by ''start_datetime'' None = Inr False"
    "parse_sort_by ''start_datetime'' (Some (SortStr ''start_datetime:desc'')) = Inr False"
    "parse_sort_by ''start_datetime'' (Some (SortList [''start_datetime:desc''])) = Inr False"
    "parse_sort_by ''start_datetime'' (Some (SortStr ''start_datetime:asc'')) = Inr True"
    "parse_sort_by ''start_datetime'' (Some (SortList [''start_datetime:asc''])) = Inr True"
    using parse_sort_by_valid[of "''start_datetime''"] by simp_all
  have "\<exists>asc. parse_sort_by ''start_datetime'' (q_sort_by q) = Inr asc"
    using assms(4) v by (elim disjE) auto
  then obtain asc where 4: "parse_sort_by ''start_datetime'' (q_sort_by q) = Inr asc"
    by blast
  show ?thesis
    using assms(1,2) 3 4
    by (simp add: experiments_def select_experiments_def bind_err_def Let_def df2_def)
qed

text \<open>
  \<^bold>\<open>C3.\<close> When a list method returns, what it returns is the sequence \<open>full\<close> cut at the
  limit, where \<open>full\<close> holds exactly the rows the query selects, each as often as the table
  has it, sorted by the table's timestamp (\<open>start_time\<close> for experiments, \<open>created_at\<close>
  for analysis results): ascending exactly when the sort specification is the token
  \<^verbatim>\<open>"<field>:asc"\<close>, and otherwise (no specification, or \<^verbatim>\<open>"<field>:desc"\<close>)
  descending. Rows with equal timestamps stand in ascending order of \<open>uuid\<close>; rows without
  a timestamp stand after all others, in ascending order of \<open>uuid\<close>. A query without
  filters selects the whole table. The sorted sequence is determined by the rows alone,
  not by their order in the table, when their identifiers are distinct.
\<close>

theorem list_sorted_by_time_then_uuid:
  "(experiments contains q c = Inr rows \<longrightarrow>
      (\<exists>df full.
         select_experiments contains q c = Inr df \<and>
         set df \<subseteq> set (db_experiments c) \<and>
         mset full = mset df \<and>
         rows = iloc_upto (arg_or (Some 10) (q_limit q)) full \<and>
         (if q_sort_by q = Some (SortStr ''start_datetime:asc'') \<or>
             q_sort_by q = Some (SortList [''start_datetime:asc''])
          then sorted_wrt (row_order start_time True) full
          else (q_sort_by q = None \<or> q_sort_by q = Some (SortStr ''start_datetime:desc'') \<or>
                q_sort_by q = Some (SortList [''start_datetime:desc''])) \<and>
               sorted_wrt (row_order start_time False) full))) \<and>
   (analysis_results contains rq c = Inr rrows \<longrightarrow>
      (\<exists>df full.
         select_results contains rq c = Inr df \<and>
         set df \<subseteq> set (db_results c) \<and>
         mset full = mset df \<and>
         rrows = iloc_upto (rq_limit rq) full \<and>
         (if rq_sort_by rq = Some (SortStr ''creation_datetime:asc'') \<or>
             rq_sort_by rq = Some (SortList [''creation_datetime:asc''])
          then sorted_wrt (row_order created_at True) full
          else (rq_sort_by rq = None \<or> rq_sort_by rq = Some (SortStr ''creation_datetime:desc'') \<or>
                rq_sort_by rq = Some (SortList [''creation_datetime:desc''])) \<and>
               sorted_wrt (row_order created_at False) full))) \<and>
   (q_experiment_type q = None \<and> q_backend_name q = None \<and> q_parent_id q = None \<and>
    q_device_components q = None \<and> q_tags q = None \<and>
    q_start_datetime_before q = None \<and> q_start_datetime_after q = None \<longrightarrow>
      select_experiments contains q c = Inr (db_experiments c)) \<and>
   (rq_experiment_uuid rq = None \<and> rq_result_type rq = None \<and> rq_backend_name rq = None \<and>
    rq_quality rq = None \<and> rq_verified rq = None \<and> rq_tags rq = None \<longrightarrow>
      select_results contains rq c = Inr (db_results c)) \<and>
   (distinct (map uuid tbl) \<and> mset tbl' = mset tbl \<longrightarrow>
      sort_values ts asc tbl' = sort_values ts asc tbl)"
proof (intro conjI impI)
  assume a: "experiments contains q c = Inr rows"
  from experiments_shape[OF a] obtain asc df where
    sel: "select_experiments contains q c = Inr df"
    and p: "parse_sort_by ''start_datetime'' (q_sort_by q) = Inr asc"
    and all: "\<forall>l. experiments contains (q\<lparr>q_limit := l\<rparr>) c =
                   Inr (iloc_upto (arg_or (Some 10) l) (sort_values start_time asc df))"
    by blast
  let ?full = "sort_values start_time asc df"
  have "experiments contains (q\<lparr>q_limit := q_limit q\<rparr>) c =
          Inr (iloc_upto (arg_or (Some 10) (q_limit q)) ?full)"
    using all by blast
  with a have rows: "rows = iloc_upto (arg_or (Some 10) (q_limit q)) ?full"
    by simp
  have s: "sorted_wrt (row_order start_time asc) ?full"
    by (rule sort_values_sorted)
  have dir: "if q_sort_by q = Some (SortStr ''start_datetime:asc'') \<or>
             q_sort_by q = Some (SortList [''start_datetime:asc''])
          then sorted_wrt (row_order start_time True) ?full
          else (q_sort_by q = None \<or> q_sort_by q = Some (SortStr ''start_datetime:desc'') \<or>
                q_sort_by q = Some (SortList [''start_datetime:desc''])) \<and>
               sorted_wrt (row_order start_time False) ?full"
    using parse_sort_by_Inr[OF p] s by (cases asc) auto
  show "\<exists>df full.
         select_experiments contains q c = Inr df \<and>
         set df \<subseteq> set (db_experiments c) \<and>
         mset full = mset df \<and>
         rows = iloc_upto (arg_or (Some 10) (q_limit q)) full \<and>
         (if q_sort_by q = Some (SortStr ''start_datetime:asc'') \<or>
             q_sort_by q = Some (SortList [''start_datetime:asc''])
          then sorted_wrt (row_order start_time True) full
          else (q_sort_by q = None \<or> q_sort_by q = Some (SortStr ''start_datetime:desc'') \<or>
                q_sort_by q = Some (SortList [''start_datetime:desc''])) \<and>
               sorted_wrt (row_order start_time False) full)"
    using sel select_experiments_subset[OF sel] sort_values_mset[of start_time asc df] rows dir
    by blast
next
  assume a: "analysis_results contains rq c = Inr rrows"
  from analysis_results_shape[OF a] obtain asc df where
    sel: "select_results contains rq c = Inr df"
    and p: "parse_sort_by ''creation_datetime'' (rq_sort_by rq) = Inr asc"
    and all: "\<forall>l. analysis_results contains (rq\<lparr>rq_limit := l\<rparr>) c =
                   Inr (iloc_upto l (sort_values created_at asc df))"
    by blast
  let ?full = "sort_values created_at asc df"
  have "analysis_results contains (rq\<lparr>rq_limit := rq_limit rq\<rparr>) c =
          Inr (iloc_upto (rq_limit rq) ?full)"
    using all by blast
  with a have rows: "rrows = iloc_upto (rq_limit rq) ?full"
    by simp
  have s: "sorted_wrt (row_order created_at asc) ?full"
    by (rule sort_values_sorted)
  have dir: "if rq_sort_by rq = Some (SortStr ''creation_datetime:asc'') \<or>
             rq_sort_by rq = Some (SortList [''creation_datetime:asc''])
          then sorted_wrt (row_order created_at True) ?full
          else (rq_sort_by rq = None \<or> rq_sort_by rq = Some (SortStr ''creation_datetime:desc'') \<or>
                rq_sort_by rq = Some (SortList [''creation_datetime:desc''])) \<and>
               sorted_wrt (row_order created_at False) ?full"
    using parse_sort_by_Inr[OF p] s by (cases asc) auto
  show "\<exists>df full.
         select_results contains rq c = Inr df \<and>
         set df \<subseteq> set (db_results c) \<and>
         mset full = mset df \<and>
         rrows = iloc_upto (rq_limit rq) full \<and>
         (if rq_sort_by rq = Some (SortStr ''creation_datetime:asc'') \<or>
             rq_sort_by rq = Some (SortList [''creation_datetime:asc''])
          then sorted_wrt (row_order created_at True) full
          else (rq_sort_by rq = None \<or> rq_sort_by rq = Some (SortStr ''creation_datetime:desc'') \<or>
                rq_sort_by rq = Some (SortList [''creation_datetime:desc''])) \<and>
               sorted_wrt (row_order created_at False) full)"
    using sel select_results_subset[OF sel] sort_values_mset[of created_at asc df] rows dir
    by blast
next
  assume "q_experiment_type q = None \<and> q_backend_name q = None \<and> q_parent_id q = None \<and>
    q_device_components q = None \<and> q_tags q = None \<and>
    q_start_datetime_before q = None \<and> q_start_datetime_after q = None"
  then show "select_experiments contains q c = Inr (db_experiments c)"
    by (simp add: select_experiments_def type_filter_def tags_filter_def opt_filter_def
        bind_err_def)
next
  assume "rq_experiment_uuid rq = None \<and> rq_result_type rq = None \<and> rq_backend_name rq = None \<and>
    rq_quality rq = None \<and> rq_verified rq = None \<and> rq_tags rq = None"
  then show "select_results contains rq c = Inr (db_results c)"
    by (simp add: select_results_def type_filter_def result_tags_filter_def opt_filter_def
        bind_err_def)
next
  assume "distinct (map uuid tbl) \<and> mset tbl' = mset tbl"
  then show "sort_values ts asc tbl' = sort_values ts asc tbl"
    using sort_values_unique by blast
qed

theorem list_sorted_by_time_then_uuid_witness:
  "experiments contains_literal exp_defaults three_results =
     Inr [sample_row ''e2'' ''T1'' ''dev'' [''y''] 2,
          sample_row ''e3'' ''T2'' ''dev'' [''x'', ''y''] 2,
          sample_row ''e1'' ''T1'' ''dev'' [''x''] 1] \<and>
   (\<exists>df full.
      select_experiments contains_literal exp_defaults three_results = Inr df \<and>
      set df \<subseteq> set (db_experiments three_results) \<and>
      mset full = mset df \<and>
      [sample_row ''e2'' ''T1'' ''dev'' [''y''] 2,
       sample_row ''e3'' ''T2'' ''dev'' [''x'', ''y''] 2,
       sample_row ''e1'' ''T1'' ''dev'' [''x''] 1] = iloc_upto (Some 10) full \<and>
      sorted_wrt (row_order start_time False) full) \<and>
   analysis_results contains_literal
     ((res_defaults None None)\<lparr>rq_sort_by := Some (SortStr ''creation_datetime:asc'')\<rparr>)
     undated_results =
     Inr [sample_result_row ''r3'' ''e2'' ''B'' ''dev'' [''b''] 7,
          (sample_result_row ''r1'' ''e1'' ''A'' ''dev'' [''a''] 0)\<lparr>created_at := None\<rparr>,
          (sample_result_row ''r2'' ''e1'' ''A'' ''dev'' [''a''] 0)\<lparr>created_at := None\<rparr>] \<and>
   (\<exists>df full.
      select_results contains_literal
        ((res_defaults None None)\<lparr>rq_sort_by := Some (SortStr ''creation_datetime:asc'')\<rparr>)
        undated_results = Inr df \<and>
      set df \<subseteq> set (db_results undated_results) \<and>
      mset full = mset df \<and>
      [sample_result_row ''r3'' ''e2'' ''B'' ''dev'' [''b''] 7,
       (sample_result_row ''r1'' ''e1'' ''A'' ''dev'' [''a''] 0)\<lparr>created_at := None\<rparr>,
       (sample_result_row ''r2'' ''e1'' ''A'' ''dev'' [''a''] 0)\<lparr>created_at := None\<rparr>] =
        iloc_upto None full \<and>
      sorted_wrt (row_order created_at True) full) \<and>
   select_experiments contains_literal exp_defaults three_results =
     Inr (db_experiments three_results) \<and>
   select_results contains_literal
     ((res_defaults None None)\<lparr>rq_sort_by := Some (SortStr ''creation_datetime:asc'')\<rparr>)
     undated_results = Inr (db_results undated_results) \<and>
   sort_values start_time False (rev (db_experiments three_results)) =
     sort_values start_time False (db_experiments three_results)"
proof -
  let ?E = "[sample_row ''e2'' ''T1'' ''dev'' [''y''] 2,
             sample_row ''e3'' ''T2'' ''dev'' [''x'', ''y''] 2,
             sample_row ''e1'' ''T1'' ''dev'' [''x''] 1]"
  let ?R = "[sample_result_row ''r3'' ''e2'' ''B'' ''dev'' [''b''] 7,
             (sample_result_row ''r1'' ''e1'' ''A'' ''dev'' [''a''] 0)\<lparr>created_at := None\<rparr>,
             (sample_result_row ''r2'' ''e1'' ''A'' ''dev'' [''a''] 0)\<lparr>created_at := None\<rparr>]"
  let ?rq = "(res_defaults None None)\<lparr>rq_sort_by := Some (SortStr ''creation_datetime:asc'')\<rparr>"
  have e: "experiments contains_literal exp_defaults three_results = Inr ?E"
    by code_simp
  have r: "analysis_results contains_literal ?rq undated_results = Inr ?R"
    by code_simp
  have d: "distinct (map uuid (db_experiments three_results))"
    by code_simp
  have m: "mset (rev (db_experiments three_results)) = mset (db_experiments three_results)"
    by simp
  have s: "q_sort_by exp_defaults = None" "q_limit exp_defaults = Omitted"
    by (simp_all add: exp_defaults_def)
  have s': "rq_sort_by ?rq = Some (SortStr ''creation_datetime:asc'')" "rq_limit ?rq = None"
    by (simp_all add: res_defaults_def)
  have n: "q_experiment_type exp_defaults = None" "q_backend_name exp_defaults = None"
    "q_parent_id exp_defaults = None" "q_device_components exp_defaults = None"
    "q_tags exp_defaults = None" "q_start_datetime_before exp_defaults = None"
    "q_start_datetime_after exp_defaults = None"
    by (simp_all add: exp_defaults_def)
  have n': "rq_experiment_uuid ?rq = None" "rq_result_type ?rq = None" "rq_backend_name ?rq = None"
    "rq_quality ?rq = None" "rq_verified ?rq = None" "rq_tags ?rq = None"
    by (simp_all add: res_defaults_def)
  note A = list_sorted_by_time_then_uuid[where contains = contains_literal
      and q = exp_defaults and c = three_results and rows = ?E
      and rq = ?rq and rrows = ?R
      and tbl = "db_experiments three_results"
      and tbl' = "rev (db_experiments three_results)"
      and ts = start_time and asc = False]
  note B = list_sorted_by_time_then_uuid[where contains = contains_literal
      and q = exp_defaults and rows = ?E
      and rq = ?rq and c = undated_results and rrows = ?R
      and tbl = "db_experiments three_results"
      and tbl' = "rev (db_experiments three_results)"
      and ts = start_time and asc = False]
  have c1: "\<exists>df full.
      select_experiments contains_literal exp_defaults three_results = Inr df \<and>
      set df \<subseteq> set (db_experiments three_results) \<and>
      mset full = mset df \<and>
      ?E = iloc_upto (Some 10) full \<and>
      sorted_wrt (row_order start_time False) full"
    using A[THEN conjunct1, rule_format, OF e] s by simp
  have c2: "\<exists>df full.
      select_results contains_literal ?rq undated_results = Inr df \<and>
      set df \<subseteq> set (db_results undated_results) \<and>
      mset full = mset df \<and>
      ?R = iloc_upto None full \<and>
      sorted_wrt (row_order created_at True) full"
    using B[THEN conjunct2, THEN conjunct1, rule_format, OF r] s' by simp
  have c3: "select_experiments contains_literal exp_defaults three_results =
      Inr (db_experiments three_results)"
    using A[THEN conjunct2, THEN conjunct2, THEN conjunct1] n by simp
  have c4: "select_results contains_literal ?rq undated_results = Inr (db_results undated_results)"
    using B[THEN conjunct2, THEN conjunct2, THEN conjunct2, THEN conjunct1] n' by simp
  have c5: "sort_values start_time False (rev (db_experiments three_results)) =
      sort_values start_time False (db_experiments three_results)"
    using A[THEN conjunct2, THEN conjunct2, THEN conjunct2, THEN conjunct2] d m by simp
  show ?thesis
    using e c1 r c2 c3 c4 c5 by (intro conjI)
qed

text \<open>Results stored without \<^verbatim>\<open>created_at\<close> come last whichever direction is asked
  for.\<close>

lemma undated_rows_come_last:
  "map_sum id (map uuid) (analysis_results contains_literal (res_defaults None None) undated_results) =
     Inr [''r3'', ''r1'', ''r2''] \<and>
   map_sum id (map uuid)
     (analysis_results contains_literal
        ((res_defaults None None)\<lparr>rq_sort_by := Some (SortStr ''creation_datetime:asc'')\<rparr>)
        undated_results) =
     Inr [''r3'', ''r1'', ''r2'']"
  by code_simp

section \<open>Truncation\<close>

text \<open>
  \<^bold>\<open>C5\<close> (as the code has it). When a list call returns, the same call with the limit
  passed as \<^verbatim>\<open>None\<close> returns \<open>full\<close>, the selected rows sorted as the sort specification
  asks, with nothing cut. With a limit \<open>n \<ge> 0\<close> the call returns the first \<open>n\<close> rows of
  \<open>full\<close> (all of them when there are fewer), so no row for limit 0; a negative limit is
  Python slicing and drops that many rows from the end. A call of \<^verbatim>\<open>experiments\<close> that
  leaves the limit out returns the first 10 rows of \<open>full\<close>: the parameter defaults to 10.
  \<^verbatim>\<open>analysis_results\<close> has no default for its limit.
\<close>

theorem limit_is_prefix:
  "(experiments contains q c = Inr rows \<longrightarrow>
      (\<exists>df asc full.
         select_experiments contains q c = Inr df \<and>
         parse_sort_by ''start_datetime'' (q_sort_by q) = Inr asc \<and>
         mset full = mset df \<and>
         sorted_wrt (row_order start_time asc) full \<and>
         experiments contains (q\<lparr>q_limit := Given None\<rparr>) c = Inr full \<and>
         (0 \<le> n \<longrightarrow>
            experiments contains (q\<lparr>q_limit := Given (Some n)\<rparr>) c = Inr (take (nat n) full)) \<and>
         (n < 0 \<longrightarrow>
            experiments contains (q\<lparr>q_limit := Given (Some n)\<rparr>) c =
              Inr (take (length full - nat (- n)) full)) \<and>
         experiments contains (q\<lparr>q_limit := Given (Some 0)\<rparr>) c = Inr [] \<and>
         experiments contains (q\<lparr>q_limit := Omitted\<rparr>) c = Inr (take 10 full))) \<and>
   (analysis_results contains rq c = Inr rrows \<longrightarrow>
      (\<exists>df asc full.
         select_results contains rq c = Inr df \<and>
         parse_sort_by ''creation_datetime'' (rq_sort_by rq) = Inr asc \<and>
         mset full = mset df \<and>
         sorted_wrt (row_order created_at asc) full \<and>
         analysis_results contains (rq\<lparr>rq_limit := None\<rparr>) c = Inr full \<and>
         (0 \<le> n \<longrightarrow>
            analysis_results contains (rq\<lparr>rq_limit := Some n\<rparr>) c = Inr (take (nat n) full)) \<and>
         (n < 0 \<longrightarrow>
            analysis_results contains (rq\<lparr>rq_limit := Some n\<rparr>) c =
              Inr (take (length full - nat (- n)) full)) \<and>
         analysis_results contains (rq\<lparr>rq_limit := Some 0\<rparr>) c = Inr []))"
proof (intro conjI impI)
  assume a: "experiments contains q c = Inr rows"
  from experiments_shape[OF a] obtain asc df where
    sel: "select_experiments contains q c = Inr df"
    and p: "parse_sort_by ''start_datetime'' (q_sort_by q) = Inr asc"
    and all: "\<forall>l. experiments contains (q\<lparr>q_limit := l\<rparr>) c =
                   Inr (iloc_upto (arg_or (Some 10) l) (sort_values start_time asc df))"
    by blast
  let ?full = "sort_values start_time asc df"
  have 1: "experiments contains (q\<lparr>q_limit := Given None\<rparr>) c = Inr ?full"
    using all by (simp add: iloc_upto_def)
  have 2: "0 \<le> n \<longrightarrow>
        experiments contains (q\<lparr>q_limit := Given (Some n)\<rparr>) c = Inr (take (nat n) ?full)"
    using all by (simp add: iloc_upto_def)
  have 3: "n < 0 \<longrightarrow>
        experiments contains (q\<lparr>q_limit := Given (Some n)\<rparr>) c =
          Inr (take (length ?full - nat (- n)) ?full)"
    using all by (simp add: iloc_upto_def)
  have 4: "experiments contains (q\<lparr>q_limit := Given (Some 0)\<rparr>) c = Inr []"
    using all by (simp add: iloc_upto_def)
  have 5: "experiments contains (q\<lparr>q_limit := Omitted\<rparr>) c = Inr (take 10 ?full)"
    using all by (simp add: iloc_upto_def)
  show "\<exists>df asc full.
         select_experiments contains q c = Inr df \<and>
         parse_sort_by ''start_datetime'' (q_sort_by q) = Inr asc \<and>
         mset full = mset df \<and>
         sorted_wrt (row_order start_time asc) full \<and>
         experiments contains (q\<lparr>q_limit := Given None\<rparr>) c = Inr full \<and>
         (0 \<le> n \<longrightarrow>
            experiments contains (q\<lparr>q_limit := Given (Some n)\<rparr>) c = Inr (take (nat n) full)) \<and>
         (n < 0 \<longrightarrow>
            experiments contains (q\<lparr>q_limit := Given (Some n)\<rparr>) c =
              Inr (take (length full - nat (- n)) full)) \<and>
         experiments contains (q\<lparr>q_limit := Given (Some 0)\<rparr>) c = Inr [] \<and>
         experiments contains (q\<lparr>q_limit := Omitted\<rparr>) c = Inr (take 10 full)"
    using sel p sort_values_mset[of start_time asc df] sort_values_sorted[of start_time asc df]
      1 2 3 4 5
    by blast
next
  assume a: "analysis_results contains rq c = Inr rrows"
  from analysis_results_shape[OF a] obtain asc df where
    sel: "select_results contains rq c = Inr df"
    and p: "parse_sort_by ''creation_datetime'' (rq_sort_by rq) = Inr asc"
    and all: "\<forall>l. analysis_results contains (rq\<lparr>rq_limit := l\<rparr>) c =
                   Inr (iloc_upto l (sort_values created_at asc df))"
    by blast
  let ?full = "sort_values created_at asc df"
  have 1: "analysis_results contains (rq\<lparr>rq_limit := None\<rparr>) c = Inr ?full"
    using all by (simp add: iloc_upto_def)
  have 2: "0 \<le> n \<longrightarrow>
        analysis_results contains (rq\<lparr>rq_limit := Some n\<rparr>) c = Inr (take (nat n) ?full)"
    using all by (simp add: iloc_upto_def)
  have 3: "n < 0 \<longrightarrow>
        analysis_results contains (rq\<lparr>rq_limit := Some n\<rparr>) c =
          Inr (take (length ?full - nat (- n)) ?full)"
    using all by (simp add: iloc_upto_def)
  have 4: "analysis_results contains (rq\<lparr>rq_limit := Some 0\<rparr>) c = Inr []"
    using all by (simp add: iloc_upto_def)
  show "\<exists>df asc full.
         select_results contains rq c = Inr df \<and>
         parse_sort_by ''creation_datetime'' (rq_sort_by rq) = Inr asc \<and>
         mset full = mset df \<and>
         sorted_wrt (row_order created_at asc) full \<and>
         analysis_results contains (rq\<lparr>rq_limit := None\<rparr>) c = Inr full \<and>
         (0 \<le> n \<longrightarrow>
            analysis_results contains (rq\<lparr>rq_limit := Some n\<rparr>) c = Inr (take (nat n) full)) \<and>
         (n < 0 \<longrightarrow>
            analysis_results contains (rq\<lparr>rq_limit := Some n\<rparr>) c =
              Inr (take (length full - nat (- n)) full)) \<and>
         analysis_results contains (rq\<lparr>rq_limit := Some 0\<rparr>) c = Inr []"
    using sel p sort_values_mset[of created_at asc df] sort_values_sorted[of created_at asc df]
      1 2 3 4
    by blast
qed

theorem limit_is_prefix_witness:
  "experiments contains_literal (exp_defaults\<lparr>q_limit := Given None\<rparr>) three_results =
     Inr [sample_row ''e2'' ''T1'' ''dev'' [''y''] 2,
          sample_row ''e3'' ''T2'' ''dev'' [''x'', ''y''] 2,
          sample_row ''e1'' ''T1'' ''dev'' [''x''] 1] \<and>
   experiments contains_literal (exp_defaults\<lparr>q_limit := Given (Some 2)\<rparr>) three_results =
     Inr [sample_row ''e2'' ''T1'' ''dev'' [''y''] 2,
          sample_row ''e3'' ''T2'' ''dev'' [''x'', ''y''] 2] \<and>
   experiments contains_literal (exp_defaults\<lparr>q_limit := Given (Some (- 1))\<rparr>) three_results =
     Inr [sample_row ''e2'' ''T1'' ''dev'' [''y''] 2,
          sample_row ''e3'' ''T2'' ''dev'' [''x'', ''y''] 2] \<and>
   experiments contains_literal (exp_defaults\<lparr>q_limit := Given (Some 0)\<rparr>) three_results = Inr [] \<and>
   analysis_results contains_literal (res_defaults (Some 2) None) three_results =
     Inr [sample_result_row ''r2'' ''e1'' ''A'' ''dev'' [''a''] 7,
          sample_result_row ''r3'' ''e2'' ''B'' ''dev'' [''b''] 7] \<and>
   analysis_results contains_literal (res_defaults (Some (- 1)) None) three_results =
     Inr [sample_result_row ''r2'' ''e1'' ''A'' ''dev'' [''a''] 7,
          sample_result_row ''r3'' ''e2'' ''B'' ''dev'' [''b''] 7] \<and>
   analysis_results contains_literal (res_defaults (Some 0) None) three_results = Inr []"
proof -
  let ?E = "[sample_row ''e2'' ''T1'' ''dev'' [''y''] 2,
             sample_row ''e3'' ''T2'' ''dev'' [''x'', ''y''] 2,
             sample_row ''e1'' ''T1'' ''dev'' [''x''] 1]"
  let ?R = "[sample_result_row ''r2'' ''e1'' ''A'' ''dev'' [''a''] 7,
             sample_result_row ''r3'' ''e2'' ''B'' ''dev'' [''b''] 7,
             sample_result_row ''r1'' ''e1'' ''A'' ''dev'' [''a''] 5]"
  have e: "experiments contains_literal (exp_defaults\<lparr>q_limit := Given None\<rparr>) three_results = Inr ?E"
    by code_simp
  have r: "analysis_results contains_literal (res_defaults None None) three_results = Inr ?R"
    by code_simp
  have u: "(res_defaults None None)\<lparr>rq_limit := l\<rparr> = res_defaults l None" for l
    by (simp add: res_defaults_def)
  have pos: "(0::int) \<le> 2" and neg: "(- 1::int) < 0"
    by simp_all
  note a = limit_is_prefix[where contains = contains_literal
      and q = "exp_defaults\<lparr>q_limit := Given None\<rparr>" and c = three_results and rows = ?E
      and rq = "res_defaults None None" and rrows = ?R and n = 2]
  note b = limit_is_prefix[where contains = contains_literal
      and q = "exp_defaults\<lparr>q_limit := Given None\<rparr>" and c = three_results and rows = ?E
      and rq = "res_defaults None None" and rrows = ?R and n = "- 1"]
  from a e r pos have
    "experiments contains_literal (exp_defaults\<lparr>q_limit := Given (Some 2)\<rparr>) three_results =
       Inr (take 2 ?E)"
    "experiments contains_literal (exp_defaults\<lparr>q_limit := Given (Some 0)\<rparr>) three_results = Inr []"
    "analysis_results contains_literal (res_defaults (Some 2) None) three_results = Inr (take 2 ?R)"
    "analysis_results contains_literal (res_defaults (Some 0) None) three_results = Inr []"
    by (auto simp: u)
  moreover from b e r neg have
    "experiments contains_literal (exp_defaults\<lparr>q_limit := Given (Some (- 1))\<rparr>) three_results =
       Inr (take (length ?E - 1) ?E)"
    "analysis_results contains_literal (res_defaults (Some (- 1)) None) three_results =
       Inr (take (length ?R - 1) ?R)"
    by (auto simp: u)
  ultimately show ?thesis using e by simp
qed

text \<open>
  \<^bold>\<open>C5\<close> as stated fails: with eleven experiments stored, \<^verbatim>\<open>experiments()\<close> without a
  limit returns ten of them, while the untruncated sequence has eleven; and with limit
  \<open>-1\<close> it returns ten rows as well, which is more than the limit.
\<close>

theorem omitted_limit_truncates:
  "map_sum id (map uuid)
     (experiments contains_literal (exp_defaults\<lparr>q_limit := Given None\<rparr>) eleven_experiments) =
     Inr [''a'', ''b'', ''c'', ''d'', ''e'', ''f'', ''g'', ''h'', ''i'', ''j'', ''k''] \<and>
   map_sum id (map uuid) (experiments contains_literal exp_defaults eleven_experiments) =
     Inr [''a'', ''b'', ''c'', ''d'', ''e'', ''f'', ''g'', ''h'', ''i'', ''j''] \<and>
   map_sum id (map uuid)
     (experiments contains_literal (exp_defaults\<lparr>q_limit := Given (Some (- 1))\<rparr>)
        eleven_experiments) =
     Inr [''a'', ''b'', ''c'', ''d'', ''e'', ''f'', ''g'', ''h'', ''i'', ''j'']"
  by code_simp

section \<open>Device components\<close>

text \<open>
  \<^bold>\<open>C9\<close> (as the code has it). With \<^verbatim>\<open>device_components\<close> not \<^verbatim>\<open>None\<close>,
  \<^verbatim>\<open>experiments\<close> returns no rows: it raises \<^verbatim>\<open>ValueError\<close>, unless the type filter,
  which runs first, raises, and then the call raises what the type filter raised. Without
  a \<^verbatim>\<open>"like:"\<close> pattern the type filter cannot raise, and the call raises
  \<^verbatim>\<open>ValueError\<close>. \<^verbatim>\<open>analysis_results\<close> never reads its \<^verbatim>\<open>device_components\<close>
  argument: the call returns what the same call without it returns.
\<close>

theorem device_components_filter:
  "(q_device_components q \<noteq> None \<longrightarrow>
      experiments contains q c =
        (case type_filter contains (q_experiment_type q) (db_experiments c) of
           Inl e \<Rightarrow> Inl e
         | Inr df \<Rightarrow> Inl ValueError)) \<and>
   (q_device_components q \<noteq> None \<and>
    (q_experiment_type q = None \<or>
     (\<exists>t. q_experiment_type q = Some t \<and> take 5 t \<noteq> ''like:'')) \<longrightarrow>
      experiments contains q c = Inl ValueError) \<and>
   analysis_results contains (rq\<lparr>rq_device_components := dc\<rparr>) c =
     analysis_results contains rq c"
proof (intro conjI impI)
  assume dc: "q_device_components q \<noteq> None"
  then show "experiments contains q c =
        (case type_filter contains (q_experiment_type q) (db_experiments c) of
           Inl e \<Rightarrow> Inl e
         | Inr df \<Rightarrow> Inl ValueError)"
    by (auto simp: experiments_def select_experiments_def bind_err_def Let_def split: sum.splits)
next
  assume a: "q_device_components q \<noteq> None \<and>
    (q_experiment_type q = None \<or>
     (\<exists>t. q_experiment_type q = Some t \<and> take 5 t \<noteq> ''like:''))"
  then obtain df1 where "type_filter contains (q_experiment_type q) (db_experiments c) = Inr df1"
    using type_filter_no_pattern[of "q_experiment_type q" contains "db_experiments c"] by blast
  with a show "experiments contains q c = Inl ValueError"
    by (auto simp: experiments_def select_experiments_def bind_err_def Let_def)
next
  show "analysis_results contains (rq\<lparr>rq_device_components := dc\<rparr>) c =
     analysis_results contains rq c"
    by (simp add: analysis_results_def select_results_device_components)
qed

theorem device_components_filter_witness:
  "experiments contains_literal (exp_defaults\<lparr>q_device_components := Some ''Q0''\<rparr>) three_results =
     Inl ValueError \<and>
   experiments contains_literal
     (exp_defaults\<lparr>q_device_components := Some ''Q0'', q_experiment_type := Some ''like:T1''\<rparr>)
     three_results = Inl ValueError \<and>
   experiments (\<lambda>column pat. Inl ReError)
     (exp_defaults\<lparr>q_device_components := Some ''Q0'', q_experiment_type := Some ''like:(''\<rparr>)
     three_results = Inl ReError"
proof -
  have 1: "q_device_components (exp_defaults\<lparr>q_device_components := Some ''Q0''\<rparr>) \<noteq> None"
    "q_experiment_type (exp_defaults\<lparr>q_device_components := Some ''Q0''\<rparr>) = None"
    by (simp_all add: exp_defaults_def)
  have 2: "type_filter contains_literal (Some ''like:T1'') (db_experiments three_results) =
             Inr [sample_row ''e1'' ''T1'' ''dev'' [''x''] 1, sample_row ''e2'' ''T1'' ''dev'' [''y''] 2]"
    by code_simp
  have 3: "type_filter (\<lambda>column pat. Inl ReError) (Some ''like:('') (db_experiments three_results) =
             Inl ReError"
    by code_simp
  have 4: "type_filter contains_literal None (db_experiments three_results) =
             Inr (db_experiments three_results)"
    by (simp add: type_filter_def)
  show ?thesis
    using device_components_filter[where contains = contains_literal
        and q = "exp_defaults\<lparr>q_device_components := Some ''Q0''\<rparr>" and c = three_results]
      device_components_filter[where contains = contains_literal
        and q = "exp_defaults\<lparr>q_device_components := Some ''Q0'',
                   q_experiment_type := Some ''like:T1''\<rparr>" and c = three_results]
      device_components_filter[where contains = "\<lambda>column pat. Inl ReError"
        and q = "exp_defaults\<lparr>q_device_components := Some ''Q0'',
                   q_experiment_type := Some ''like:(''\<rparr>" and c = three_results]
      1 2 3 4
    by simp
qed

text \<open>
  \<^bold>\<open>C9\<close> as stated fails for analysis results: a query with
  \<^verbatim>\<open>device_components=["Q0"]\<close> returns all three stored results.
\<close>

theorem result_device_components_ignored:
  "analysis_results contains_literal
     ((res_defaults None None)\<lparr>rq_device_components := Some [''Q0'']\<rparr>) three_results =
     Inr [sample_result_row ''r2'' ''e1'' ''A'' ''dev'' [''a''] 7,
          sample_result_row ''r3'' ''e2'' ''B'' ''dev'' [''b''] 7,
          sample_result_row ''r1'' ''e1'' ''A'' ''dev'' [''a''] 5]"
  by code_simp

section \<open>Creating an analysis result\<close>

text \<open>
  \<^bold>\<open>C8.\<close> \<^verbatim>\<open>analysis_result_create\<close> raises \<^verbatim>\<open>RequestsApiError\<close> without a status
  code when the payload has no \<^verbatim>\<open>experiment_uuid\<close>, and \<^verbatim>\<open>RequestsApiError\<close> with
  status 404 when no experiment has that identifier; in both cases the client is left as
  it was. Otherwise it succeeds and appends one row to the results table: its
  \<^verbatim>\<open>device_name\<close> is that of the experiment \<^verbatim>\<open>experiment_get\<close> returns for the
  identifier, its \<^verbatim>\<open>uuid\<close> is the payload's or, when the payload has none, the freshly
  generated one, and no later \<^verbatim>\<open>experiment_update\<close> changes the results table.
\<close>

theorem analysis_result_create_checks:
  "(j_experiment_uuid data = None \<longrightarrow>
      analysis_result_create fresh data c = (Inl (RequestsApiError None), c)) \<and>
   (j_experiment_uuid data = Some exp_id \<and> exp_id \<notin> uuid ` set (db_experiments c) \<longrightarrow>
      analysis_result_create fresh data c = (Inl (RequestsApiError (Some 404)), c)) \<and>
   (j_experiment_uuid data = Some exp_id \<and> experiment_get exp_id c = Inr exp \<longrightarrow>
      (\<exists>r c'. analysis_result_create fresh data c = (Inr r, c') \<and>
         db_results c' = db_results c @ [r] \<and>
         db_experiments c' = db_experiments c \<and>
         experiment_uuid r = exp_id \<and>
         device_name r = device_name exp \<and>
         uuid r = (case j_uuid data of None \<Rightarrow> fresh | Some v \<Rightarrow> v) \<and>
         (\<forall>i p. db_results (snd (experiment_update i p c')) = db_results c')))"
proof (intro conjI impI)
  assume "j_experiment_uuid data = None"
  then show "analysis_result_create fresh data c = (Inl (RequestsApiError None), c)"
    by (simp add: analysis_result_create_def)
next
  assume "j_experiment_uuid data = Some exp_id \<and> exp_id \<notin> uuid ` set (db_experiments c)"
  then have "j_experiment_uuid data = Some exp_id" "loc_uuid exp_id (db_experiments c) = []"
    by (auto simp: loc_uuid_def filter_empty_conv)
  then show "analysis_result_create fresh data c = (Inl (RequestsApiError (Some 404)), c)"
    by (simp add: analysis_result_create_def)
next
  assume a: "j_experiment_uuid data = Some exp_id \<and> experiment_get exp_id c = Inr exp"
  then obtain rest where l: "loc_uuid exp_id (db_experiments c) = exp # rest"
    by (auto simp: experiment_get_def serialize_def Let_def split: if_splits list.splits)
  define r where "r = \<lparr>uuid = (case j_uuid data of None \<Rightarrow> fresh | Some v \<Rightarrow> v),
        type = j_type data, device_name = device_name exp,
        tags = j_tags data,
        experiment_uuid = exp_id, quality = j_quality data,
        verified = j_verified data, created_at = j_created_at data\<rparr>"
  define c' where "c' = save (c\<lparr>db_results := db_results c @ [r]\<rparr>)"
  have 1: "analysis_result_create fresh data c = (Inr r, c')"
    using a l by (simp add: analysis_result_create_def r_def c'_def Let_def)
  have 2: "db_results c' = db_results c @ [r]" "db_experiments c' = db_experiments c"
    by (simp_all add: c'_def save_def)
  have 3: "experiment_uuid r = exp_id" "device_name r = device_name exp"
    "uuid r = (case j_uuid data of None \<Rightarrow> fresh | Some v \<Rightarrow> v)"
    by (simp_all add: r_def)
  have 4: "db_results (snd (experiment_update i p c')) = db_results c'" for i p
    by (simp add: experiment_update_def save_def Let_def)
  from 1 2 3 4 show "\<exists>r c'. analysis_result_create fresh data c = (Inr r, c') \<and>
         db_results c' = db_results c @ [r] \<and>
         db_experiments c' = db_experiments c \<and>
         experiment_uuid r = exp_id \<and>
         device_name r = device_name exp \<and>
         uuid r = (case j_uuid data of None \<Rightarrow> fresh | Some v \<Rightarrow> v) \<and>
         (\<forall>i p. db_results (snd (experiment_update i p c')) = db_results c')"
    by blast
qed

theorem analysis_result_create_checks_witness:
  "analysis_result_create ''g7'' ((sample_result ''r9'' ''e1'' ''A'' [] 9)\<lparr>j_experiment_uuid := None\<rparr>)
     three_results = (Inl (RequestsApiError None), three_results) \<and>
   analysis_result_create ''g7'' (sample_result ''r9'' ''zz'' ''A'' [] 9) three_results =
     (Inl (RequestsApiError (Some 404)), three_results) \<and>
   (\<exists>r c'. analysis_result_create ''g7'' ((sample_result ''r9'' ''e1'' ''A'' [] 9)\<lparr>j_uuid := None\<rparr>)
              three_results = (Inr r, c') \<and>
            db_results c' = db_results three_results @ [r] \<and>
            db_experiments c' = db_experiments three_results \<and>
            experiment_uuid r = ''e1'' \<and>
            device_name r = ''dev'' \<and> uuid r = ''g7'' \<and>
            (\<forall>i p. db_results (snd (experiment_update i p c')) = db_results c'))"
proof -
  have 1: "j_experiment_uuid ((sample_result ''r9'' ''e1'' ''A'' [] 9)\<lparr>j_experiment_uuid := None\<rparr>) = None"
    by simp
  have 2: "j_experiment_uuid (sample_result ''r9'' ''zz'' ''A'' [] 9) = Some ''zz''"
    by (simp add: sample_result_def)
  have 3: "''zz'' \<notin> uuid ` set (db_experiments three_results)"
    by code_simp
  have 4: "j_experiment_uuid ((sample_result ''r9'' ''e1'' ''A'' [] 9)\<lparr>j_uuid := None\<rparr>) = Some ''e1''"
    "j_uuid ((sample_result ''r9'' ''e1'' ''A'' [] 9)\<lparr>j_uuid := None\<rparr>) = None"
    by (simp_all add: sample_result_def)
  have 5: "experiment_get ''e1'' three_results = Inr (sample_row ''e1'' ''T1'' ''dev'' [''x''] 1)"
    by code_simp
  have 6: "device_name (sample_row ''e1'' ''T1'' ''dev'' [''x''] 1) = ''dev''"
    by (simp add: sample_row_def)
  show ?thesis
    using analysis_result_create_checks[where fresh = "''g7''" and c = three_results
        and data = "(sample_result ''r9'' ''e1'' ''A'' [] 9)\<lparr>j_experiment_uuid := None\<rparr>"]
      analysis_result_create_checks[where fresh = "''g7''" and c = three_results
        and data = "sample_result ''r9'' ''zz'' ''A'' [] 9" and exp_id = "''zz''"]
      analysis_result_create_checks[where fresh = "''g7''" and c = three_results
        and data = "(sample_result ''r9'' ''e1'' ''A'' [] 9)\<lparr>j_uuid := None\<rparr>"
        and exp_id = "''e1''" and exp = "sample_row ''e1'' ''T1'' ''dev'' [''x''] 1"]
      1 2 3 4 5 6
    by simp
qed

section \<open>Persistence\<close>

text \<open>\<^verbatim>\<open>save\<close> writes both tables in full.\<close>

lemma write_file_tables:
  "experiments_file (write_file f b d) = experiments_file d \<and>
   results_file (write_file f b d) = results_file d"
  by (simp add: write_file_def)

lemma fold_write_file_tables:
  "experiments_file (fold (\<lambda>(n, b). write_file (g n) b) figs d) = experiments_file d \<and>
   results_file (fold (\<lambda>(n, b). write_file (g n) b) figs d) = results_file d"
  by (induction figs arbitrary: d) (auto simp: write_file_tables)

lemma save_figures_tables:
  "experiments_file (save_figures figs d) = experiments_file d \<and>
   results_file (save_figures figs d) = results_file d"
  unfolding save_figures_def
  by (induction figs arbitrary: d) (auto simp: fold_write_file_tables)

lemma save_flushes_tables:
  "local_save c \<Longrightarrow>
   experiments_file (storage (save c)) = Some (db_experiments c) \<and>
   results_file (storage (save c)) = Some (db_results c)"
  by (simp add: save_def save_figures_tables)

text \<open>What \<^verbatim>\<open>save\<close> leaves in the figures directory: the files that were there, with
  one file written per figure in memory, in the order of the dictionaries. No file is
  removed.\<close>

lemma fold_update_map_of:
  "map_of (fold (\<lambda>(k, v). AList.update k v) kvs al) = map_of al ++ map_of (rev kvs)"
proof (induction kvs arbitrary: al)
  case Nil
  then show ?case by simp
next
  case (Cons kv kvs)
  obtain k v where kv: "kv = (k, v)" by (cases kv)
  have "map_of (fold (\<lambda>(k, v). AList.update k v) (kv # kvs) al) =
        map_of (AList.update k v al) ++ map_of (rev kvs)"
    using Cons.IH[of "AList.update k v al"] kv by simp
  also have "\<dots> = map_of al ++ map_of (rev (kv # kvs))"
    by (simp add: kv update_conv' map_add_upd_left fun_eq_iff map_add_def split: option.splits)
  finally show ?case .
qed

lemma fold_write_file:
  assumes "figures_dir d = Some files"
  shows "figures_dir (fold (\<lambda>(f, b). write_file f b) kvs d) =
           Some (fold (\<lambda>(k, v). AList.update k v) kvs files)"
  using assms by (induction kvs arbitrary: d files) (auto simp: write_file_def)

lemma save_figures_flat:
  "save_figures figs d =
     fold (\<lambda>(f, b). write_file f b)
       (concat (map (\<lambda>(exp_id, exp_figures).
                       map (\<lambda>(figure_name, figure_data). (exp_id @ ''_'' @ figure_name, figure_data))
                         exp_figures) figs)) d"
proof (induction figs arbitrary: d)
  case Nil
  then show ?case by (simp add: save_figures_def)
next
  case (Cons p figs)
  obtain e fs where p: "p = (e, fs)" by (cases p)
  have inner: "fold (\<lambda>(figure_name, figure_data). write_file (e @ ''_'' @ figure_name) figure_data) fs d' =
        fold (\<lambda>(f, b). write_file f b) (map (\<lambda>(figure_name, figure_data). (e @ ''_'' @ figure_name, figure_data)) fs) d'" for d'
    by (induction fs arbitrary: d') auto
  show ?case
    using Cons.IH inner by (simp add: save_figures_def p)
qed

lemma save_flushes_figures:
  assumes "local_save c" and "figures_dir (storage c) = Some files"
  shows "\<exists>files'. figures_dir (storage (save c)) = Some files' \<and>
           map_of files' =
             map_of files ++
             map_of (rev (concat (map (\<lambda>(exp_id, exp_figures).
                       map (\<lambda>(figure_name, figure_data). (exp_id @ ''_'' @ figure_name, figure_data))
                         exp_figures) (db_figures c))))"
proof -
  let ?kvs = "concat (map (\<lambda>(exp_id, exp_figures).
                       map (\<lambda>(figure_name, figure_data). (exp_id @ ''_'' @ figure_name, figure_data))
                         exp_figures) (db_figures c))"
  let ?d = "(storage c)\<lparr>experiments_file := Some (db_experiments c),
                           results_file := Some (db_results c)\<rparr>"
  have "figures_dir ?d = Some files" using assms(2) by simp
  then have "figures_dir (save_figures (db_figures c) ?d) =
               Some (fold (\<lambda>(k, v). AList.update k v) ?kvs files)"
    unfolding save_figures_flat by (rule fold_write_file)
  then show ?thesis
    using assms(1) by (simp add: save_def fold_update_map_of)
qed

text \<open>
  \<^bold>\<open>C1.\<close> \<^verbatim>\<open>experiment_plot_delete\<close> returns without saving. On a client with
  local saving, holding the one figure \<^verbatim>\<open>("e1", "fig")\<close> that is also on disk, the call
  succeeds and removes the figure from memory, and the file \<^verbatim>\<open>e1_fig\<close> is still in the
  figures directory: memory and disk differ after a successful mutation.
\<close>

theorem plot_delete_leaves_file_on_disk:
  "local_save one_plot \<and>
   db_figures one_plot = [(''e1'', [(''fig'', ''DATA'')])] \<and>
   figures_dir (storage one_plot) = Some [(''e1_fig'', ''DATA'')] \<and>
   fst (experiment_plot_delete ''e1'' ''fig'' one_plot) = Inr () \<and>
   db_figures (snd (experiment_plot_delete ''e1'' ''fig'' one_plot)) = [(''e1'', [])] \<and>
   figures_dir (storage (snd (experiment_plot_delete ''e1'' ''fig'' one_plot))) =
     Some [(''e1_fig'', ''DATA'')]"
  by code_simp

text \<open>
  \<^bold>\<open>C2.\<close> After that deletion the client no longer has the figure (404), and a new client
  constructed over the same storage directory has it again.
\<close>

theorem restart_brings_deleted_plot_back:
  "experiment_plot_get ''e1'' ''fig'' (snd (experiment_plot_delete ''e1'' ''fig'' one_plot)) =
     Inl (RequestsApiError (Some 404)) \<and>
   experiment_plot_get ''e1'' ''fig''
     (LocalExperimentClient True (storage (snd (experiment_plot_delete ''e1'' ''fig'' one_plot)))) =
     Inr ''DATA''"
  by code_simp

text \<open>A figure uploaded for an identifier that is not in the experiments table is written
  to disk and not read back: \<^verbatim>\<open>_get_figure_list\<close> only looks for the files of the
  experiments in the table.\<close>

lemma restart_drops_plot_of_unknown_experiment:
  "db_figures (snd (experiment_plot_upload ''e1'' ''DATA'' ''fig'' (LocalExperimentClient True empty_disk)))
     = [(''e1'', [(''fig'', ''DATA'')])] \<and>
   db_figures (LocalExperimentClient True
     (storage (snd (experiment_plot_upload ''e1'' ''DATA'' ''fig'' (LocalExperimentClient True empty_disk)))))
     = []"
  by code_simp

section \<open>Tag filters\<close>

text \<open>\<^verbatim>\<open>experiments\<close> filters by tags as its operator says: \<^verbatim>\<open>"OR"\<close> (also the default)
  keeps the rows that have one of the tags, \<^verbatim>\<open>"AND"\<close> the rows that have all of them, and
  any other operator raises \<^verbatim>\<open>ValueError\<close>. In \<^verbatim>\<open>analysis_results\<close> only a
  \<^verbatim>\<open>tags\<close> string \<^verbatim>\<open>"AND:..."\<close> passes the filter.\<close>

lemma tags_filter_or:
  "tags_filter (Some ts) (Some ''OR'') df = Inr (filter (\<lambda>r. set (tags r) \<inter> set ts \<noteq> {}) df)"
  by (auto simp: tags_filter_def list_ex_iff intro!: filter_cong)

lemma tags_filter_and:
  "tags_filter (Some ts) (Some ''AND'') df = Inr (filter (\<lambda>r. set ts \<subseteq> set (tags r)) df)"
  by (auto simp: tags_filter_def list_all_iff intro!: filter_cong)

lemma tags_filter_other:
  "operator \<noteq> Some ''OR'' \<Longrightarrow> operator \<noteq> Some ''AND'' \<Longrightarrow>
   tags_filter (Some ts) operator df = Inl ValueError"
  by (simp add: tags_filter_def)

lemma experiments_tags:
  "experiments contains
     (exp_defaults\<lparr>q_limit := Given None, q_tags := Some ts, q_tags_operator := operator\<rparr>) c =
     (if arg_or (Some ''OR'') operator = Some ''OR''
        then Inr (sort_values start_time False
                    (filter (\<lambda>r. set (tags r) \<inter> set ts \<noteq> {}) (db_experiments c)))
      else if arg_or (Some ''OR'') operator = Some ''AND''
        then Inr (sort_values start_time False
                    (filter (\<lambda>r. set ts \<subseteq> set (tags r)) (db_experiments c)))
      else Inl ValueError)"
proof -
  have p: "parse_sort_by ''start_datetime'' None = Inr False"
    using parse_sort_by_valid[of "''start_datetime''"] by simp
  show ?thesis
    using tags_filter_or[of ts "db_experiments c"] tags_filter_and[of ts "db_experiments c"]
      tags_filter_other[of "arg_or (Some ''OR'') operator" ts "db_experiments c"]
    by (simp add: experiments_def select_experiments_def exp_defaults_def type_filter_def
        opt_filter_def bind_err_def iloc_upto_def p)
qed

lemma split_on_no_sep_inside: "w \<in> set (split_on c s) \<Longrightarrow> c \<notin> set w"
proof (induction s arbitrary: w)
  case Nil
  then show ?case by simp
next
  case (Cons x xs)
  show ?case
  proof (cases "x = c")
    case True
    with Cons show ?thesis by auto
  next
    case False
    obtain v vs where v: "split_on c xs = v # vs"
      using split_on_not_Nil by (cases "split_on c xs") auto
    with Cons.prems False have "w = x # v \<or> w \<in> set vs" by auto
    with Cons.IH v False show ?thesis by auto
  qed
qed

lemma result_tags_filter_only_and:
  assumes "result_tags_filter (Some (TagString s)) df = Inr df'"
  shows "\<exists>tag_str. s = ''AND:'' @ tag_str \<and>
           df' = filter (\<lambda>r. set (split_on CHR '','' tag_str) \<subseteq> set (tags r)) df"
proof -
  from assms obtain operator tag_str where sp: "split_on CHR '':'' s = [operator, tag_str]"
    by (auto simp: result_tags_filter_def split: list.splits)
  then have "CHR '':'' \<notin> set operator"
    using split_on_no_sep_inside[of operator "CHR '':''" s] by simp
  then have na: "operator \<noteq> ''any:''" by auto
  with assms sp have op: "operator = ''AND''"
    and df': "df' = filter (\<lambda>r. list_all (\<lambda>x. x \<in> set (tags r)) (split_on CHR '','' tag_str)) df"
    by (auto simp: result_tags_filter_def Let_def split: if_splits)
  have "s = ''AND:'' @ tag_str" using split_on_two[OF sp] op by simp
  moreover have "df' = filter (\<lambda>r. set (split_on CHR '','' tag_str) \<subseteq> set (tags r)) df"
    unfolding df' by (auto simp: list_all_iff intro!: filter_cong)
  ultimately show ?thesis by blast
qed

text \<open>
  \<^bold>\<open>C4.\<close> In \<^verbatim>\<open>analysis_results\<close> the operator is what stands before the colon of the
  \<^verbatim>\<open>tags\<close> string, and the branch for "any" compares it with \<^verbatim>\<open>"any:"\<close>, which the
  split never yields. So \<^verbatim>\<open>"any:a"\<close> and \<^verbatim>\<open>"OR:a"\<close> raise \<^verbatim>\<open>ValueError\<close>; a list of
  tags, which the signature announces, raises \<^verbatim>\<open>AttributeError\<close>; only \<^verbatim>\<open>"AND:a"\<close>
  filters. No type filter is given, so \<^verbatim>\<open>str.contains\<close> plays no part.
\<close>

theorem result_tags_any_is_rejected:
  "analysis_results contains ((res_defaults None None)\<lparr>rq_tags := Some (TagString ''any:a'')\<rparr>) three_results =
     Inl ValueError \<and>
   analysis_results contains ((res_defaults None None)\<lparr>rq_tags := Some (TagString ''OR:a'')\<rparr>) three_results =
     Inl ValueError \<and>
   analysis_results contains ((res_defaults None None)\<lparr>rq_tags := Some (TagList [''a''])\<rparr>) three_results =
     Inl AttributeError \<and>
   map_sum id (map uuid)
     (analysis_results contains ((res_defaults None None)\<lparr>rq_tags := Some (TagString ''AND:a'')\<rparr>) three_results) =
     Inr [''r2'', ''r1'']"
  by code_simp

section \<open>Type filters\<close>

text \<open>When \<^verbatim>\<open>str.contains\<close> searches the pattern as a substring, a \<^verbatim>\<open>"like:"\<close>
  pattern without a colon selects the rows whose type contains it; a filter without the
  prefix selects the rows whose type equals it.\<close>

lemma type_filter_like:
  assumes "CHR '':'' \<notin> set s"
    and "contains (map type df) s = Inr (map (sublist s) (map type df))"
  shows "type_filter contains (Some (''like:'' @ s)) df = Inr (filter (\<lambda>r. sublist s (type r)) df)"
proof -
  have "split_on CHR '':'' (''like:'' @ s) = [''like'', s]"
    using split_on_append_sep[of "CHR '':''" "''like''" s] split_on_no_sep[OF assms(1)] by simp
  moreover have "loc_mask (map (sublist s) (map type df)) df = filter (\<lambda>r. sublist s (type r)) df"
    using loc_mask_map[of "\<lambda>r. sublist s (type r)" df] by (simp add: comp_def)
  ultimately show ?thesis using assms(2) by (simp add: type_filter_def)
qed

lemma type_filter_exact:
  "take 5 t \<noteq> ''like:'' \<Longrightarrow>
   type_filter contains (Some t) df = Inr (filter (\<lambda>r. type r = t) df)"
  by (simp add: type_filter_def)

text \<open>
  \<^bold>\<open>C6.\<close> The pattern of a \<^verbatim>\<open>"like:"\<close> filter is \<^verbatim>\<open>split(":")[1]\<close>, the text between
  the first and the second colon. The filter \<^verbatim>\<open>"like:T1:x"\<close> searches for \<^verbatim>\<open>"T1"\<close>,
  a pattern without metacharacters, and returns the two experiments of type \<^verbatim>\<open>"T1"\<close>,
  whose type does not contain \<^verbatim>\<open>"T1:x"\<close>.
\<close>

theorem like_filter_stops_at_colon:
  "map_sum id (map type)
     (experiments contains_literal (exp_defaults\<lparr>q_experiment_type := Some ''like:T1:x''\<rparr>) three_results) =
     Inr [''T1'', ''T1''] \<and>
   \<not> sublist ''T1:x'' ''T1''"
  by code_simp

section \<open>Identifiers\<close>

text \<open>\<^verbatim>\<open>experiment_upload\<close> refuses an identifier that is already in the table, and
  uploads, deletions and updates that do not write \<^verbatim>\<open>uuid\<close> keep the identifiers of
  the experiments table distinct.\<close>

lemma loc_uuid_empty: "loc_uuid ident df = [] \<longleftrightarrow> ident \<notin> uuid ` set df"
  by (auto simp: loc_uuid_def filter_empty_conv)

lemma experiment_upload_duplicate:
  assumes "(case j_uuid data of None \<Rightarrow> fresh | Some v \<Rightarrow> v) \<in> uuid ` set (db_experiments c)"
  shows "experiment_upload fresh data c = (Inl IBMExperimentEntryExists, c)"
  using assms by (simp add: experiment_upload_def loc_uuid_empty)

lemma db_experiments_save: "db_experiments (save c) = db_experiments c"
  by (simp add: save_def)

lemma update_first_uuids:
  "(\<And>r. uuid (f r) = uuid r) \<Longrightarrow> map uuid (update_first p f df) = map uuid df"
  by (induction df) auto

lemma experiment_uuids_stay_distinct:
  assumes "distinct (map uuid (db_experiments c))"
  shows "distinct (map uuid (db_experiments (snd (experiment_upload fresh data c))))"
    and "distinct (map uuid (db_experiments (snd (experiment_delete i c))))"
    and "u_uuid p = None \<Longrightarrow>
         map uuid (db_experiments (snd (experiment_update i p c))) = map uuid (db_experiments c)"
proof -
  show "distinct (map uuid (db_experiments (snd (experiment_upload fresh data c))))"
    using assms by (auto simp: experiment_upload_def Let_def db_experiments_save loc_uuid_empty)
  show "distinct (map uuid (db_experiments (snd (experiment_delete i c))))"
    using assms by (auto simp: experiment_delete_def Let_def db_experiments_save distinct_map_filter)
  assume "u_uuid p = None"
  then have "uuid (patch_experiment p r) = uuid r" for r
    by (simp add: patch_experiment_def patch_row_def)
  then show "map uuid (db_experiments (snd (experiment_update i p c))) = map uuid (db_experiments c)"
    by (simp add: experiment_update_def Let_def db_experiments_save update_first_uuids)
qed

text \<open>
  \<^bold>\<open>C7.\<close> \<^verbatim>\<open>experiment_update\<close> writes every key of the payload, \<^verbatim>\<open>uuid\<close> included.
  With experiments \<^verbatim>\<open>e3\<close>, \<^verbatim>\<open>e1\<close>, \<^verbatim>\<open>e2\<close> stored, updating \<^verbatim>\<open>e1\<close> with
  \<^verbatim>\<open>{"uuid": "e2"}\<close> leaves two rows with identifier \<^verbatim>\<open>e2\<close> in memory and on disk; the
  call itself then raises \<^verbatim>\<open>IndexError\<close>, because it looks the row up again under the
  old identifier.
\<close>

theorem update_can_duplicate_uuid:
  "map uuid (db_experiments three_results) = [''e3'', ''e1'', ''e2''] \<and>
   fst (experiment_update ''e1'' (no_patch\<lparr>u_uuid := Some ''e2''\<rparr>) three_results) = Inl IndexError \<and>
   map uuid (db_experiments
     (snd (experiment_update ''e1'' (no_patch\<lparr>u_uuid := Some ''e2''\<rparr>) three_results))) =
     [''e3'', ''e2'', ''e2''] \<and>
   map_option (map uuid) (experiments_file (storage
     (snd (experiment_update ''e1'' (no_patch\<lparr>u_uuid := Some ''e2''\<rparr>) three_results)))) =
     Some [''e3'', ''e2'', ''e2'']"
  by code_simp

text \<open>\<^verbatim>\<open>analysis_result_create\<close> does not look for an existing row with the payload's
  \<^verbatim>\<open>uuid\<close>, as \<^verbatim>\<open>experiment_upload\<close> does.\<close>

lemma result_create_accepts_duplicate_uuid:
  "map uuid (db_results three_results) = [''r3'', ''r1'', ''r2''] \<and>
   map_sum id uuid (fst (analysis_result_create ''g'' (sample_result ''r1'' ''e2'' ''C'' [] 9) three_results)) = Inr ''r1'' \<and>
   map uuid (db_results (snd (analysis_result_create ''g'' (sample_result ''r1'' ''e2'' ''C'' [] 9) three_results)))
     = [''r3'', ''r1'', ''r2'', ''r1'']"
  by code_simp

section \<open>Plots\<close>

text \<open>\<^verbatim>\<open>experiment_plot_upload\<close> fails with status 409 exactly when the figure exists;
  once the identifier is a key of the dictionary, the other three methods fail with status
  404 exactly when the figure does not exist.\<close>

lemma db_figures_save: "db_figures (save c) = db_figures c"
  by (simp add: save_def)

lemma plot_upload_conflict:
  "experiment_plot_get experiment_id plot_name c = Inr old \<Longrightarrow>
   experiment_plot_upload experiment_id plot plot_name c = (Inl (RequestsApiError (Some 409)), c)"
  by (auto simp: experiment_plot_get_def experiment_plot_upload_def split: option.splits)

lemma plot_upload_new:
  assumes "\<forall>old. experiment_plot_get experiment_id plot_name c \<noteq> Inr old"
  shows "fst (experiment_plot_upload experiment_id plot plot_name c) = Inr True"
    and "experiment_plot_get experiment_id plot_name
           (snd (experiment_plot_upload experiment_id plot plot_name c)) = Inr plot"
  using assms
  by (auto simp: experiment_plot_get_def experiment_plot_upload_def Let_def db_figures_save
      update_conv' split: option.splits)

lemma plot_access_known_experiment:
  assumes "map_of (db_figures c) experiment_id = Some exp_figures"
  shows "experiment_plot_get experiment_id plot_name c =
           (case map_of exp_figures plot_name of
              None \<Rightarrow> Inl (RequestsApiError (Some 404)) | Some b \<Rightarrow> Inr b)"
    and "fst (experiment_plot_update experiment_id plot plot_name c) =
           (case map_of exp_figures plot_name of
              None \<Rightarrow> Inl (RequestsApiError (Some 404))
            | Some b \<Rightarrow> Inr (plot_name, length plot))"
    and "fst (experiment_plot_delete experiment_id plot_name c) =
           (case map_of exp_figures plot_name of
              None \<Rightarrow> Inl (RequestsApiError (Some 404)) | Some b \<Rightarrow> Inr ())"
  using assms
  by (auto simp: experiment_plot_get_def experiment_plot_update_def experiment_plot_delete_def
      split: option.splits)

text \<open>
  \<^bold>\<open>C10.\<close> On a client that holds no figure for experiment \<^verbatim>\<open>e1\<close>,
  \<^verbatim>\<open>experiment_plot_get\<close>, \<^verbatim>\<open>experiment_plot_update\<close> and
  \<^verbatim>\<open>experiment_plot_delete\<close> raise \<^verbatim>\<open>KeyError\<close>, not \<^verbatim>\<open>RequestsApiError\<close> with
  status 404.
\<close>

theorem plot_access_unknown_experiment_KeyError:
  "db_figures three_results = [] \<and>
   experiment_plot_get ''e1'' ''fig'' three_results = Inl KeyError \<and>
   fst (experiment_plot_update ''e1'' ''DATA'' ''fig'' three_results) = Inl KeyError \<and>
   fst (experiment_plot_delete ''e1'' ''fig'' three_results) = Inl KeyError"
  by code_simp

end
